theory Spec2Isabelle
  imports Main
begin

section \<open>Strings and numbers as the JavaScript runtime renders them\<close>

text \<open>
  The server is a single request handler (\<^verbatim>\<open>server.setRequestHandler(CallToolRequestSchema, ...)\<close>)
  whose \<^verbatim>\<open>switch (name)\<close> has one case per tool. Each case is embedded below as a function of
  the same name that takes the file system and the tool's arguments and returns the file
  system afterwards together with either the text payload or the error that the outer
  \<^verbatim>\<open>catch\<close> turns into an \<^verbatim>\<open>McpError\<close> carrying the same message.
\<close>

abbreviation nl :: char where "nl \<equiv> CHR 0x0A"
abbreviation quote :: char where "quote \<equiv> CHR 0x27"
abbreviation dquote :: char where "dquote \<equiv> CHR 0x22"
abbreviation backslash :: char where "backslash \<equiv> CHR 0x5C"

definition digit_char :: "nat \<Rightarrow> char" where
  "digit_char d = ''0123456789'' ! d"

text \<open>Decimal rendering of a non-negative integer (\<^verbatim>\<open>Number.prototype.toString\<close>).\<close>

fun string_of_nat :: "nat \<Rightarrow> string" where
  "string_of_nat n =
     (if n < 10 then [digit_char n] else string_of_nat (n div 10) @ [digit_char (n mod 10)])"

declare string_of_nat.simps [simp del]

definition string_of_int :: "int \<Rightarrow> string" where
  "string_of_int i = (if i < 0 then CHR ''-'' # string_of_nat (nat (- i)) else string_of_nat (nat i))"

text \<open>
  A JavaScript number that the handlers compute with: an integer, or \<^verbatim>\<open>NaN\<close> (\<open>None\<close>),
  which is what \<^verbatim>\<open>parseInt\<close> returns for text without leading digits. Fractions are
  outside the model. JavaScript computes with integers exactly only up to
  \<^verbatim>\<open>Number.MAX_SAFE_INTEGER\<close> = \<open>2^53 - 1\<close>: beyond it \<^verbatim>\<open>parseInt\<close> rounds, and from \<open>10^21\<close> on
  a number is printed with an exponent. The embedding computes with the integers
  themselves, so it is the code on the safe integers only, and what is stated about
  numbers that a request names is stated for safe integers.
\<close>

type_synonym number = "int option"

definition safe_integer :: "int \<Rightarrow> bool" where
  "safe_integer i = (- 9007199254740991 \<le> i \<and> i \<le> 9007199254740991)"

definition number_toString :: "number \<Rightarrow> string" where
  "number_toString x = (case x of None \<Rightarrow> ''NaN'' | Some i \<Rightarrow> string_of_int i)"

definition padStart :: "nat \<Rightarrow> string \<Rightarrow> string" where
  "padStart w s = replicate (w - length s) CHR '' '' @ s"

fun join :: "string \<Rightarrow> string list \<Rightarrow> string" where
  "join sep [] = []"
| "join sep [x] = x"
| "join sep (x # y # ys) = x @ sep @ join sep (y # ys)"

text \<open>\<^verbatim>\<open>content.split('\n')\<close>: always at least one piece.\<close>

fun split_str :: "char \<Rightarrow> string \<Rightarrow> string list" where
  "split_str d [] = [[]]"
| "split_str d (c # cs) =
     (if c = d then [] # split_str d cs
      else (case split_str d cs of [] \<Rightarrow> [[c]] | p # ps \<Rightarrow> (c # p) # ps))"

definition is_ws :: "char \<Rightarrow> bool" where
  "is_ws c = (c \<in> set [CHR '' '', CHR 0x09, CHR 0x0A, CHR 0x0B, CHR 0x0C, CHR 0x0D])"

fun index_of :: "char \<Rightarrow> string \<Rightarrow> nat option" where
  "index_of c [] = None"
| "index_of c (x # xs) = (if c = x then Some 0 else map_option Suc (index_of c xs))"

definition digit_val :: "nat \<Rightarrow> char \<Rightarrow> nat option" where
  "digit_val radix c =
     (case index_of c ''0123456789abcdef'' of
        Some v \<Rightarrow> if v < radix then Some v else None
      | None \<Rightarrow>
         (case index_of c ''ABCDEF'' of
            Some v \<Rightarrow> if v + 10 < radix then Some (v + 10) else None
          | None \<Rightarrow> None))"

definition digits_value :: "nat \<Rightarrow> string \<Rightarrow> nat" where
  "digits_value radix ds = foldl (\<lambda>a c. a * radix + (case digit_val radix c of Some v \<Rightarrow> v | None \<Rightarrow> 0)) 0 ds"

text \<open>
  \<^verbatim>\<open>parseInt(s)\<close> without a radix: leading white space is skipped, a sign is read, a
  \<^verbatim>\<open>0x\<close> prefix selects base 16, and the longest run of digits is the value; no digit
  gives \<^verbatim>\<open>NaN\<close>.
\<close>

definition parseInt :: "string \<Rightarrow> number" where
  "parseInt s =
     (let s1 = dropWhile is_ws s;
          neg = (case s1 of c # _ \<Rightarrow> c = CHR ''-'' | [] \<Rightarrow> False);
          s2 = (case s1 of c # r \<Rightarrow> if c = CHR ''-'' \<or> c = CHR ''+'' then r else s1 | [] \<Rightarrow> s1);
          hex = (take 2 s2 = ''0x'' \<or> take 2 s2 = ''0X'');
          radix = (if hex then 16 else 10);
          s3 = (if hex then drop 2 s2 else s2);
          ds = takeWhile (\<lambda>c. digit_val radix c \<noteq> None) s3
      in if ds = [] then None
         else Some (if neg then - int (digits_value radix ds) else int (digits_value radix ds)))"

text \<open>\<^verbatim>\<open>Array.prototype.slice(start, end)\<close>: \<^verbatim>\<open>NaN\<close> counts as 0, a negative index counts from the
  end, and both ends are clamped to the array.\<close>

definition rel_index :: "nat \<Rightarrow> number \<Rightarrow> nat" where
  "rel_index len k =
     (case k of None \<Rightarrow> 0
      | Some i \<Rightarrow> if i < 0 then nat (max (int len + i) 0) else min (nat i) len)"

definition slice :: "'a list \<Rightarrow> number \<Rightarrow> number \<Rightarrow> 'a list" where
  "slice xs s e =
     (let k = rel_index (length xs) s; f = rel_index (length xs) e
      in take (f - k) (drop k xs))"

section \<open>The file system and errors\<close>

text \<open>
  A file system maps a path to the content of the file there. Paths are compared as
  strings (no links, no \<^verbatim>\<open>./\<close> aliases), directories and permissions are not modelled,
  so a write to a path that is not empty never fails. The empty path names no file: a
  file system that occurs has nothing there, and \<^verbatim>\<open>restore_backup\<close>, the one handler that
  writes to a path that it has not found to exist, fails when it writes there.
\<close>

type_synonym fs = "string \<rightharpoonup> string"

datatype error =
    Error string
  | CommandFailed string
  | SyntaxError string

type_synonym outcome = "fs \<times> (error + string)"

definition existsSync :: "fs \<Rightarrow> string \<Rightarrow> bool" where
  "existsSync fs p = (fs p \<noteq> None)"

definition readFile :: "fs \<Rightarrow> string \<Rightarrow> error + string" where
  "readFile fs p =
     (case fs p of
        None \<Rightarrow> Inl (Error (''ENOENT: no such file or directory, open '' @ [quote] @ p @ [quote]))
      | Some c \<Rightarrow> Inr c)"

definition writeFile :: "fs \<Rightarrow> string \<Rightarrow> string \<Rightarrow> fs" where
  "writeFile fs p c = fs(p \<mapsto> c)"

text \<open>What \<^verbatim>\<open>rm -f\<close> does to the file at the path that it is given.\<close>

definition rm_f :: "fs \<Rightarrow> string \<Rightarrow> fs" where
  "rm_f fs p = fs(p := None)"

text \<open>
  The handlers paste a path between single quotes into the command that they hand to
  the shell (\<^verbatim>\<open>'${file}'\<close>). The shell reads that as the one word \<open>p\<close>, and the program
  reads the word as a path, only when \<open>p\<close> holds no single quote and does not begin
  with \<^verbatim>\<open>-\<close>: a quote ends the quoted text, so that the rest of the path is read as shell
  syntax, and a word that begins with \<^verbatim>\<open>-\<close> is an option to the program. For any other
  path the embedding gives no outcome (\<open>None\<close>).
\<close>

definition shell_safe :: "string \<Rightarrow> bool" where
  "shell_safe p = (case p of [] \<Rightarrow> False | c # cs \<Rightarrow> c \<noteq> CHR ''-'' \<and> quote \<notin> set p)"

text \<open>\<^verbatim>\<open>execAsync(`rm -f '${p}'`)\<close>\<close>

definition sh_rm_f :: "fs \<Rightarrow> string \<Rightarrow> fs option" where
  "sh_rm_f fs p = (if shell_safe p then Some (rm_f fs p) else None)"

section \<open>restore_backup\<close>

definition restore_backup :: "fs \<Rightarrow> string \<Rightarrow> bool \<Rightarrow> outcome option" where
  "restore_backup fs file keepBackup =
     (let backupFile = file @ ''.bak'' in
      if \<not> existsSync fs backupFile then
        (let alternatives = filter (existsSync fs) [file @ ''~'', file @ ''.backup'', file @ ''.orig'']
         in if length alternatives > 0
            then Some (fs, Inl (Error (''No .bak file found, but found: '' @ join '', '' alternatives)))
            else Some (fs, Inl (Error (''No backup file found for '' @ file))))
      else
        (case readFile fs backupFile of
           Inl e \<Rightarrow> Some (fs, Inl e)
         | Inr backupContent \<Rightarrow>
            (case (if existsSync fs file
                   then (case readFile fs file of
                           Inl e \<Rightarrow> Inl e
                         | Inr current \<Rightarrow> Inr (writeFile fs (file @ ''.before-restore'') current))
                   else Inr fs) of
               Inl e \<Rightarrow> Some (fs, Inl e)
             | Inr fs1 \<Rightarrow>
                if file = []
                then Some (fs1, Inl (Error (''ENOENT: no such file or directory, open '' @ [quote, quote])))
                else
                  (let fs2 = writeFile fs1 file backupContent
                   in case (if \<not> keepBackup then sh_rm_f fs2 backupFile else Some fs2) of
                        None \<Rightarrow> None
                      | Some fs3 \<Rightarrow>
                         Some (fs3, Inr (''Successfully restored '' @ file @ '' from backup''
                                         @ (if \<not> keepBackup then '' (backup removed)'' else [])
                                         @ ''\<newline>Safety backup created: '' @ file @ ''.before-restore''))))))"

text \<open>Calling the tool \<open>n\<close> times in a row on the same file.\<close>

fun restore_repeated :: "nat \<Rightarrow> fs \<Rightarrow> string \<Rightarrow> bool \<Rightarrow> fs option" where
  "restore_repeated 0 fs file keepBackup = Some fs"
| "restore_repeated (Suc n) fs file keepBackup =
     (case restore_backup fs file keepBackup of
        None \<Rightarrow> None
      | Some (fs', r) \<Rightarrow> restore_repeated n fs' file keepBackup)"

section \<open>Regular expressions\<close>

text \<open>
  The pattern language is that of the runtime's \<^verbatim>\<open>RegExp\<close>, which is not part of the
  repository: a compiled expression is taken as the function that \<^verbatim>\<open>exec\<close> computes on a
  string and a start index, returning the end index of the leftmost match that starts at
  or after the start index. The constructor \<^verbatim>\<open>new RegExp(pattern, flags)\<close> is a parameter
  \<open>mk\<close> of the handlers; \<open>None\<close> is its \<^verbatim>\<open>SyntaxError\<close>.
\<close>

type_synonym regex = "string \<Rightarrow> nat \<Rightarrow> nat option"

type_synonym regexp_ctor = "string \<Rightarrow> string \<Rightarrow> regex option"

text \<open>
  \<^verbatim>\<open>regex.test(line)\<close> on an expression with the \<^verbatim>\<open>g\<close> flag: the search starts at the
  expression's \<^verbatim>\<open>lastIndex\<close>; a match stores its end there, a failure (or a \<^verbatim>\<open>lastIndex\<close>
  beyond the string) stores 0. The result is the answer and the new \<^verbatim>\<open>lastIndex\<close>.
\<close>

definition regex_test :: "regex \<Rightarrow> nat \<Rightarrow> string \<Rightarrow> bool \<times> nat" where
  "regex_test re lastIndex line =
     (if lastIndex > length line then (False, 0)
      else (case re line lastIndex of None \<Rightarrow> (False, 0) | Some e \<Rightarrow> (True, e)))"

text \<open>A pattern without metacharacters compiles to substring search.\<close>

primrec starts_with :: "string \<Rightarrow> string \<Rightarrow> bool" where
  "starts_with [] s = True"
| "starts_with (p # ps) s = (case s of [] \<Rightarrow> False | c # cs \<Rightarrow> p = c \<and> starts_with ps cs)"

fun find_from :: "string \<Rightarrow> string \<Rightarrow> nat \<Rightarrow> nat option" where
  "find_from pat [] i = (if pat = [] then Some i else None)"
| "find_from pat (c # cs) i =
     (if starts_with pat (c # cs) then Some i else find_from pat cs (Suc i))"

definition literal_regex :: "string \<Rightarrow> regex" where
  "literal_regex pat line from =
     map_option (\<lambda>i. i + length pat) (find_from pat (drop from line) from)"

section \<open>read_file, search_in_file, show_around_line\<close>

text \<open>One rendered line of a context block; \<open>i\<close> is the 0-based index of the line.\<close>

definition context_line :: "string list \<Rightarrow> int \<Rightarrow> int \<Rightarrow> string" where
  "context_line fileLines index i =
     (if i = index then ''>'' else '' '') @ '' '' @ padStart 4 (string_of_int (i + 1)) @ '': ''
       @ fileLines ! nat i"

text \<open>The inner \<^verbatim>\<open>for (let i = startLine; i <= endLine; i++)\<close> of both search loops.\<close>

definition context_block :: "string list \<Rightarrow> int \<Rightarrow> int \<Rightarrow> string list" where
  "context_block fileLines context index =
     (let startLine = max 0 (index - context);
          endLine = min (int (length fileLines) - 1) (index + context)
      in map (context_line fileLines index) [startLine..endLine])"

record search_state =
  lastIndex :: nat
  matchCount :: nat
  results :: "string list"

text \<open>The body of \<^verbatim>\<open>fileLines.forEach((line, index) => ...)\<close> in \<^verbatim>\<open>search_in_file\<close>.\<close>

definition search_step :: "regex \<Rightarrow> int \<Rightarrow> string list \<Rightarrow> search_state \<Rightarrow> nat \<times> string \<Rightarrow> search_state" where
  "search_step re context fileLines st il =
     (case il of (index, line) \<Rightarrow>
        (case regex_test re (lastIndex st) line of (hit, li) \<Rightarrow>
           if hit then
             \<lparr> lastIndex = li,
               matchCount = matchCount st + 1,
               results = results st
                 @ [''\<newline>--- Match '' @ string_of_nat (matchCount st + 1) @ '' at line ''
                      @ string_of_nat (index + 1) @ '' ---'']
                 @ context_block fileLines context (int index) \<rparr>
           else st \<lparr> lastIndex := li \<rparr>))"

definition search_loop :: "regex \<Rightarrow> int \<Rightarrow> string list \<Rightarrow> search_state" where
  "search_loop re context fileLines =
     foldl (search_step re context fileLines)
       \<lparr> lastIndex = 0, matchCount = 0, results = [] \<rparr> (enumerate 0 fileLines)"

definition search_in_file ::
  "regexp_ctor \<Rightarrow> fs \<Rightarrow> string \<Rightarrow> string \<Rightarrow> int \<Rightarrow> bool \<Rightarrow> error + string" where
  "search_in_file mk fs file pattern context caseInsensitive =
     (if \<not> existsSync fs file then Inl (Error (''File not found: '' @ file))
      else (case readFile fs file of
              Inl e \<Rightarrow> Inl e
            | Inr content \<Rightarrow>
               (let fileLines = split_str nl content;
                    flags = (if caseInsensitive then ''gi'' else ''g'')
                in (case mk pattern flags of
                      None \<Rightarrow> Inl (SyntaxError pattern)
                    | Some re \<Rightarrow>
                       (let st = search_loop re context fileLines
                        in Inr (if length (results st) > 0
                                then ''Found '' @ string_of_nat (matchCount st) @ '' matches for ''
                                     @ [dquote] @ pattern @ [dquote] @ '' in '' @ file @ '':\<newline>''
                                     @ join ''\<newline>'' (results st)
                                else ''No matches found for '' @ [dquote] @ pattern @ [dquote]
                                     @ '' in '' @ file))))))"

text \<open>The search mode of \<^verbatim>\<open>read_file\<close> runs the same loop without the match counter.\<close>

definition read_search_step :: "regex \<Rightarrow> int \<Rightarrow> string list \<Rightarrow> search_state \<Rightarrow> nat \<times> string \<Rightarrow> search_state" where
  "read_search_step re context fileLines st il =
     (case il of (index, line) \<Rightarrow>
        (case regex_test re (lastIndex st) line of (hit, li) \<Rightarrow>
           if hit then
             st \<lparr> lastIndex := li,
                  results := results st
                    @ [''\<newline>--- Match at line '' @ string_of_nat (index + 1) @ '' ---'']
                    @ context_block fileLines context (int index) \<rparr>
           else st \<lparr> lastIndex := li \<rparr>))"

datatype lines_arg = LinesString string | LinesArray "string list" | LinesNumber int

text \<open>JavaScript truthiness of the optional arguments.\<close>

definition truthy_string :: "string option \<Rightarrow> bool" where
  "truthy_string a = (case a of None \<Rightarrow> False | Some s \<Rightarrow> s \<noteq> [])"

definition truthy_lines :: "lines_arg option \<Rightarrow> bool" where
  "truthy_lines a =
     (case a of None \<Rightarrow> False
      | Some (LinesString s) \<Rightarrow> s \<noteq> []
      | Some (LinesArray xs) \<Rightarrow> True
      | Some (LinesNumber n) \<Rightarrow> n \<noteq> 0)"

text \<open>\<^verbatim>\<open>[startStr, endStr] = ...\<close>; a missing array element is \<^verbatim>\<open>undefined\<close> (\<open>None\<close>).\<close>

definition nth_opt :: "'a list \<Rightarrow> nat \<Rightarrow> 'a option" where
  "nth_opt xs i = (if i < length xs then Some (xs ! i) else None)"

definition range_strings :: "lines_arg \<Rightarrow> string option \<times> string option" where
  "range_strings a =
     (case a of
        LinesArray xs \<Rightarrow> (nth_opt xs 0, nth_opt xs 1)
      | LinesString s \<Rightarrow>
         (if CHR ''-'' \<in> set s
          then (nth_opt (split_str CHR ''-'' s) 0, nth_opt (split_str CHR ''-'' s) 1)
          else (Some s, Some s))
      | LinesNumber n \<Rightarrow> (Some (string_of_int n), Some (string_of_int n)))"

definition parseInt_arg :: "string option \<Rightarrow> number" where
  "parseInt_arg a = (case a of None \<Rightarrow> None | Some s \<Rightarrow> parseInt s)"

definition number_add :: "number \<Rightarrow> int \<Rightarrow> number" where
  "number_add x k = map_option (\<lambda>i. i + k) x"

definition read_lines :: "string \<Rightarrow> string list \<Rightarrow> lines_arg \<Rightarrow> string" where
  "read_lines file fileLines a =
     (case range_strings a of (startStr, endStr) \<Rightarrow>
        (let start = parseInt_arg startStr;
             end = (if endStr = Some ''$'' then Some (int (length fileLines)) else parseInt_arg endStr);
             selectedLines = slice fileLines (number_add start (- 1)) end;
             numberedLines = map (\<lambda>(index, line).
                 padStart 4 (number_toString (number_add start (int index))) @ '': '' @ line)
               (enumerate 0 selectedLines)
         in ''Lines '' @ number_toString start @ ''-''
            @ (if end = Some (int (length fileLines)) then ''$'' else number_toString end)
            @ '' of '' @ file @ '':\<newline>'' @ join ''\<newline>'' numberedLines))"

definition maxLines :: nat where
  "maxLines = 100"

definition read_full :: "string \<Rightarrow> string list \<Rightarrow> string" where
  "read_full file fileLines =
     (let displayLines = (if length fileLines > maxLines then take maxLines fileLines else fileLines);
          numberedLines = map (\<lambda>(index, line).
              padStart 4 (string_of_nat (index + 1)) @ '': '' @ line) (enumerate 0 displayLines);
          truncated = (if length fileLines > maxLines
                       then ''\<newline>... (showing first '' @ string_of_nat maxLines @ '' of ''
                            @ string_of_nat (length fileLines) @ '' lines)''
                       else [])
      in ''Contents of '' @ file @ '':\<newline>'' @ join ''\<newline>'' numberedLines @ truncated)"

definition read_file ::
  "regexp_ctor \<Rightarrow> fs \<Rightarrow> string \<Rightarrow> lines_arg option \<Rightarrow> string option \<Rightarrow> int \<Rightarrow> error + string" where
  "read_file mk fs file lines search context =
     (if \<not> existsSync fs file then Inl (Error (''File not found: '' @ file))
      else (case readFile fs file of
              Inl e \<Rightarrow> Inl e
            | Inr content \<Rightarrow>
               (let fileLines = split_str nl content in
                if truthy_string search then
                  (case mk (case search of Some s \<Rightarrow> s | None \<Rightarrow> []) ''gi'' of
                     None \<Rightarrow> Inl (SyntaxError (case search of Some s \<Rightarrow> s | None \<Rightarrow> []))
                   | Some re \<Rightarrow>
                      (let st = foldl (read_search_step re context fileLines)
                                  \<lparr> lastIndex = 0, matchCount = 0, results = [] \<rparr>
                                  (enumerate 0 fileLines);
                           s = (case search of Some s \<Rightarrow> s | None \<Rightarrow> [])
                       in Inr (if length (results st) > 0
                               then ''Search results for '' @ [dquote] @ s @ [dquote] @ '' in '' @ file
                                    @ '':\<newline>'' @ join ''\<newline>'' (results st)
                               else ''No matches found for '' @ [dquote] @ s @ [dquote] @ '' in '' @ file)))
                else if truthy_lines lines then
                  (case lines of Some a \<Rightarrow> Inr (read_lines file fileLines a)
                   | None \<Rightarrow> Inr (read_full file fileLines))
                else Inr (read_full file fileLines))))"

datatype number_arg = NumberArg int | StringArg string

text \<open>\<^verbatim>\<open>targetLine < 1 || targetLine > fileLines.length\<close>: every comparison with \<^verbatim>\<open>NaN\<close> is false.\<close>

definition out_of_range :: "number \<Rightarrow> nat \<Rightarrow> bool" where
  "out_of_range targetLine len =
     (case targetLine of None \<Rightarrow> False | Some t \<Rightarrow> t < 1 \<or> t > int len)"

definition around_line :: "string list \<Rightarrow> int \<Rightarrow> int \<Rightarrow> string" where
  "around_line fileLines targetLine i =
     (if i = targetLine then ''>'' else '' '') @ '' '' @ padStart 4 (string_of_int i) @ '': ''
       @ fileLines ! nat (i - 1)"

definition show_around_line :: "fs \<Rightarrow> string \<Rightarrow> number_arg \<Rightarrow> int \<Rightarrow> error + string" where
  "show_around_line fs file lineNumber context =
     (if \<not> existsSync fs file then Inl (Error (''File not found: '' @ file))
      else (case readFile fs file of
              Inl e \<Rightarrow> Inl e
            | Inr content \<Rightarrow>
               (let fileLines = split_str nl content;
                    targetLine = (case lineNumber of NumberArg n \<Rightarrow> Some n | StringArg s \<Rightarrow> parseInt s)
                in if out_of_range targetLine (length fileLines)
                   then Inl (Error (''Line number '' @ number_toString targetLine
                          @ '' is out of range (file has '' @ string_of_nat (length fileLines) @ '' lines)''))
                   else
                     (let results =
                        (case targetLine of
                           None \<Rightarrow> []
                         | Some t \<Rightarrow>
                            (let startLine = max 1 (t - context);
                                 endLine = min (int (length fileLines)) (t + context)
                             in map (around_line fileLines t) [startLine..endLine]))
                      in Inr (''Context around line '' @ number_toString targetLine @ '' in '' @ file
                              @ '':\<newline>'' @ join ''\<newline>'' results)))))"

section \<open>Commands run through the shell\<close>

text \<open>
  \<^verbatim>\<open>execAsync(cmd)\<close> hands \<open>cmd\<close> to \<^verbatim>\<open>/bin/sh -c\<close> and rejects when the exit status is not 0.
  The handlers build \<open>cmd\<close> by placing arguments between single quotes. A path that is
  not \<open>shell_safe\<close> ends the model. The scripts, in which the handlers themselves escape
  quotes, are read as the shell reads them:
  \<open>sh_read In_quote s\<close> is the word that the shell makes of \<open>s\<close> placed between the two
  quotes of the template. Inside quotes every character stands for itself up to the next
  quote; outside, a backslash protects the next character, a quote opens a new quoted
  part, and any character with a meaning to the shell ends the model (\<open>None\<close>), as does
  text that leaves a quote open.
\<close>

datatype sh_mode = In_quote | Out_quote

definition sh_special :: "char \<Rightarrow> bool" where
  "sh_special c = (c \<in> set ('' |&;<>()$`*?[#~=%!{}'' @ [CHR 0x09, nl, dquote]))"

fun sh_read :: "sh_mode \<Rightarrow> string \<Rightarrow> string option" where
  "sh_read In_quote [] = Some []"
| "sh_read Out_quote [] = None"
| "sh_read In_quote (c # cs) =
     (if c = quote then sh_read Out_quote cs else map_option ((#) c) (sh_read In_quote cs))"
| "sh_read Out_quote (c # cs) =
     (if c = quote then sh_read In_quote cs
      else if c = backslash then
        (case cs of [] \<Rightarrow> None
         | d # ds \<Rightarrow> if d = nl then sh_read Out_quote ds else map_option ((#) d) (sh_read Out_quote ds))
      else if sh_special c then None
      else map_option ((#) c) (sh_read Out_quote cs))"

text \<open>
  The outcome of an editor that rewrites a file in place (\<^verbatim>\<open>perl -i -pe\<close>): exit status 0
  with the new content and what it printed on standard error, or a failure, which leaves
  the file alone (\<open>None\<close>, the script did not compile) or has begun to rewrite it. What
  perl, awk and diff compute is not part of the repository: they are parameters. Each is
  taken to read and write only the files named on its command line.
\<close>

datatype run = Exit0 string string | ExitFail "string option" string

record tools =
  perl :: "string \<Rightarrow> string \<Rightarrow> run"
  awk :: "string \<Rightarrow> string \<Rightarrow> bool \<times> string"
  diff_u :: "string \<Rightarrow> string \<Rightarrow> string \<Rightarrow> string \<Rightarrow> string"

definition run_stderr :: "run \<Rightarrow> string" where
  "run_stderr r = (case r of Exit0 c e \<Rightarrow> e | ExitFail c e \<Rightarrow> e)"

text \<open>The file system after \<^verbatim>\<open>perl -i<ext> ... 'p'\<close>; \<open>ext = None\<close> keeps no backup.\<close>

definition in_place :: "fs \<Rightarrow> string \<Rightarrow> string option \<Rightarrow> run \<Rightarrow> fs" where
  "in_place fs p ext r =
     (let written = (case r of Exit0 c e \<Rightarrow> Some c | ExitFail c e \<Rightarrow> c)
      in case written of
           None \<Rightarrow> fs
         | Some c \<Rightarrow>
            (case ext of
               None \<Rightarrow> fs(p \<mapsto> c)
             | Some x \<Rightarrow> (case fs p of None \<Rightarrow> fs(p \<mapsto> c) | Some old \<Rightarrow> fs(p @ x \<mapsto> old, p \<mapsto> c))))"

text \<open>Standard output of \<^verbatim>\<open>diff -u 'a' 'b'\<close>; nothing when a file is missing.\<close>

definition run_diff :: "tools \<Rightarrow> fs \<Rightarrow> string \<Rightarrow> string \<Rightarrow> string" where
  "run_diff t fs a b =
     (case fs a of None \<Rightarrow> []
      | Some x \<Rightarrow> (case fs b of None \<Rightarrow> [] | Some y \<Rightarrow> diff_u t a x b y))"

text \<open>\<^verbatim>\<open>head -n\<close>\<close>

fun head_lines :: "nat \<Rightarrow> string \<Rightarrow> string" where
  "head_lines 0 s = []"
| "head_lines (Suc n) [] = []"
| "head_lines (Suc n) (c # cs) = c # (if c = nl then head_lines n cs else head_lines (Suc n) cs)"

section \<open>The fragment of sed that quick_replace and line_edit reach\<close>

text \<open>
  sed is an external program. Its behaviour is embedded for the scripts made of an
  optional line address or range (\<^verbatim>\<open>N\<close>, \<^verbatim>\<open>$\<close>, \<^verbatim>\<open>N,M\<close>, \<^verbatim>\<open>N,$\<close>) and one of the commands
  \<^verbatim>\<open>d\<close> and \<^verbatim>\<open>s/regex/replacement/\<close> with no flag or the flag \<^verbatim>\<open>g\<close>, where the regular
  expression denotes a fixed text. A script that sed rejects is a parse error; any other
  script is outside the fragment.
\<close>

datatype sed_addr = Line nat | Last

datatype sed_cmd = Delete | Subst string string bool

datatype sed_script = Script "sed_addr option" "sed_addr option" sed_cmd

datatype 'a parse = Parsed 'a | Parse_error | Unmodelled

definition is_digit :: "char \<Rightarrow> bool" where
  "is_digit c = (c \<in> set ''0123456789'')"

definition parse_addr :: "string \<Rightarrow> sed_addr option \<times> string" where
  "parse_addr s =
     (case s of
        [] \<Rightarrow> (None, [])
      | c # cs \<Rightarrow>
         if c = CHR ''$'' then (Some Last, cs)
         else if is_digit c then (Some (Line (digits_value 10 (takeWhile is_digit s))), dropWhile is_digit s)
         else (None, s))"

text \<open>
  One field of an \<^verbatim>\<open>s\<close> command: the text up to the next delimiter \<^verbatim>\<open>/\<close> that no backslash
  protects, and what follows it. A line break or the end of the script before the
  delimiter is sed's "unterminated `s' command".
\<close>

fun sed_field :: "string \<Rightarrow> (string \<times> string) option" where
  "sed_field [] = None"
| "sed_field (c # cs) =
     (if c = CHR ''/'' then Some ([], cs)
      else if c = nl then None
      else if c = backslash then
        (case cs of [] \<Rightarrow> None
         | d # ds \<Rightarrow> map_option (\<lambda>(f, r). (c # d # f, r)) (sed_field ds))
      else map_option (\<lambda>(f, r). (c # f, r)) (sed_field cs))"

text \<open>
  The fixed text that a basic regular expression denotes, when it denotes one: ordinary
  characters, and the characters \<^verbatim>\<open>. * [ ] ^ $ / \\<close> behind a backslash. An unprotected
  \<^verbatim>\<open>. * [ ^ $\<close> and any other backslash sequence (in GNU sed \<^verbatim>\<open>\+ \? \| \( \) \{ \}\<close> are
  operators) is outside the fragment.
\<close>

fun bre_literal :: "string \<Rightarrow> string option" where
  "bre_literal [] = Some []"
| "bre_literal (c # cs) =
     (if c = backslash then
        (case cs of [] \<Rightarrow> None
         | d # ds \<Rightarrow>
            if d \<in> set ''.*[]^$/'' \<or> d = backslash then map_option ((#) d) (bre_literal ds) else None)
      else if c \<in> set ''.*[^$'' then None
      else map_option ((#) c) (bre_literal cs))"

text \<open>The replacement text for a match of the fixed text \<open>pat\<close>: \<^verbatim>\<open>&\<close> is the match.\<close>

fun sed_replacement :: "string \<Rightarrow> string \<Rightarrow> string option" where
  "sed_replacement pat [] = Some []"
| "sed_replacement pat (c # cs) =
     (if c = backslash then
        (case cs of [] \<Rightarrow> None
         | d # ds \<Rightarrow>
            if d \<in> set ''&/'' \<or> d = backslash then map_option ((#) d) (sed_replacement pat ds) else None)
      else if c = CHR ''&'' then map_option ((@) pat) (sed_replacement pat cs)
      else map_option ((#) c) (sed_replacement pat cs))"

definition sed_flag_char :: "char \<Rightarrow> bool" where
  "sed_flag_char c = (c \<in> set ''gpiImMew0123456789 ;}#'' \<or> c = nl)"

definition parse_subst :: "string \<Rightarrow> sed_cmd parse" where
  "parse_subst s =
     (case sed_field s of
        None \<Rightarrow> Parse_error
      | Some (re, s1) \<Rightarrow>
         (case sed_field s1 of
            None \<Rightarrow> Parse_error
          | Some (rep, flags) \<Rightarrow>
             if flags \<noteq> [] \<and> \<not> sed_flag_char (hd flags) then Parse_error
             else if flags \<noteq> [] \<and> flags \<noteq> ''g'' then Unmodelled
             else (case bre_literal re of
                     None \<Rightarrow> Unmodelled
                   | Some pat \<Rightarrow>
                      if pat = [] then Unmodelled
                      else (case sed_replacement pat rep of
                              None \<Rightarrow> Unmodelled
                            | Some r \<Rightarrow> Parsed (Subst pat r (flags = ''g''))))))"

definition sed_parse :: "string \<Rightarrow> sed_script parse" where
  "sed_parse script =
     (case parse_addr script of (a1, s1) \<Rightarrow>
        if a1 = Some (Line 0) then Parse_error
        else
          (case (if a1 \<noteq> None \<and> take 1 s1 = '','' then
                   (case parse_addr (drop 1 s1) of
                      (None, r) \<Rightarrow> Parse_error
                    | (Some a, r) \<Rightarrow> if a = Line 0 then Unmodelled else Parsed (Some a, r))
                 else Parsed (None, s1)) of
             Parse_error \<Rightarrow> Parse_error
           | Unmodelled \<Rightarrow> Unmodelled
           | Parsed (a2, s2) \<Rightarrow>
              (case s2 of
                 [] \<Rightarrow> Unmodelled
               | c # cs \<Rightarrow>
                  if c = CHR ''d'' then (if cs = [] then Parsed (Script a1 a2 Delete) else Unmodelled)
                  else if c = CHR ''s'' \<and> take 1 cs = ''/'' then
                    (case parse_subst (drop 1 cs) of
                       Parsed cmd \<Rightarrow> Parsed (Script a1 a2 cmd)
                     | Parse_error \<Rightarrow> Parse_error
                     | Unmodelled \<Rightarrow> Unmodelled)
                  else Unmodelled)))"

text \<open>
  The lines that sed reads: each with its text and whether a line break ends it (only
  the last line of a file can lack one, and sed writes it back without one).
\<close>

fun sed_lines :: "string \<Rightarrow> (string \<times> bool) list" where
  "sed_lines [] = []"
| "sed_lines (c # cs) =
     (if c = nl then ([], True) # sed_lines cs
      else (case sed_lines cs of [] \<Rightarrow> [([c], False)] | (l, t) # ls \<Rightarrow> (c # l, t) # ls))"

definition sed_unlines :: "(string \<times> bool) list \<Rightarrow> string" where
  "sed_unlines ls = concat (map (\<lambda>(l, t). l @ (if t then [nl] else [])) ls)"

text \<open>
  \<^verbatim>\<open>s/pat/rep/\<close> on one line replaces the leftmost occurrence of \<open>pat\<close>; with \<^verbatim>\<open>g\<close> the search
  goes on behind each replaced occurrence.
\<close>

function subst :: "string \<Rightarrow> string \<Rightarrow> bool \<Rightarrow> string \<Rightarrow> string" where
  "subst pat rep g [] = []"
| "subst pat rep g (c # cs) =
     (if pat \<noteq> [] \<and> starts_with pat (c # cs)
      then rep @ (if g then subst pat rep g (drop (length pat) (c # cs)) else drop (length pat) (c # cs))
      else c # subst pat rep g cs)"
  by pat_completeness auto
termination
  by (relation "measure (\<lambda>(pat, rep, g, s). length s)") auto

fun addr_hit :: "sed_addr \<Rightarrow> nat \<Rightarrow> bool \<Rightarrow> bool" where
  "addr_hit (Line k) n is_last = (n = k)"
| "addr_hit Last n is_last = is_last"

fun range_ends :: "sed_addr \<Rightarrow> nat \<Rightarrow> bool \<Rightarrow> bool" where
  "range_ends (Line k) n is_last = (k \<le> n)"
| "range_ends Last n is_last = is_last"

text \<open>
  Whether the command applies to line \<open>n\<close>, and whether a range is open afterwards. A
  range opens on the line that its first address selects and closes on the line that its
  second address selects; a second address that is a number not beyond the opening line
  gives a range of that one line.
\<close>

definition sed_select :: "sed_addr option \<Rightarrow> sed_addr option \<Rightarrow> bool \<Rightarrow> nat \<Rightarrow> bool \<Rightarrow> bool \<times> bool" where
  "sed_select a1 a2 active n is_last =
     (case a1 of
        None \<Rightarrow> (True, False)
      | Some x \<Rightarrow>
         (case a2 of
            None \<Rightarrow> (addr_hit x n is_last, False)
          | Some y \<Rightarrow>
             if active \<or> addr_hit x n is_last then (True, \<not> range_ends y n is_last)
             else (False, False)))"

definition sed_apply :: "sed_cmd \<Rightarrow> string \<times> bool \<Rightarrow> (string \<times> bool) list" where
  "sed_apply cmd lt =
     (case cmd of Delete \<Rightarrow> [] | Subst pat rep g \<Rightarrow> [(subst pat rep g (fst lt), snd lt)])"

fun sed_cycle ::
  "sed_addr option \<Rightarrow> sed_addr option \<Rightarrow> sed_cmd \<Rightarrow> bool \<Rightarrow> nat \<Rightarrow> (string \<times> bool) list \<Rightarrow> (string \<times> bool) list" where
  "sed_cycle a1 a2 cmd active n [] = []"
| "sed_cycle a1 a2 cmd active n (lt # rest) =
     (case sed_select a1 a2 active n (rest = []) of
        (selected, active') \<Rightarrow>
          (if selected then sed_apply cmd lt else [lt]) @ sed_cycle a1 a2 cmd active' (Suc n) rest)"

datatype sed_run = Sed_ok string | Sed_error | Sed_unmodelled

definition sed :: "string \<Rightarrow> string \<Rightarrow> sed_run" where
  "sed script content =
     (case sed_parse script of
        Parse_error \<Rightarrow> Sed_error
      | Unmodelled \<Rightarrow> Sed_unmodelled
      | Parsed (Script a1 a2 cmd) \<Rightarrow> Sed_ok (sed_unlines (sed_cycle a1 a2 cmd False 1 (sed_lines content))))"

text \<open>
  \<^verbatim>\<open>execAsync("sed -i<ext> '<quoted>' '<file>'")\<close>: sed reads its script before it opens the
  file, so a rejected script leaves the file system alone; otherwise the old content
  goes to \<open>file @ ext\<close> and the output replaces the file. \<open>Inl cmd\<close> is the rejection.
  There is no outcome for a path that is not \<open>shell_safe\<close>.
\<close>

definition sed_i :: "fs \<Rightarrow> string \<Rightarrow> string \<Rightarrow> string \<Rightarrow> (string + fs) option" where
  "sed_i fs ext quoted file =
     (let cmd = ''sed -i'' @ ext @ '' '' @ [quote] @ quoted @ [quote] @ '' '' @ [quote] @ file @ [quote]
      in if \<not> shell_safe file then None
         else case sh_read In_quote quoted of
           None \<Rightarrow> None
         | Some script \<Rightarrow>
            (case sed script (case fs file of None \<Rightarrow> [] | Some c \<Rightarrow> c) of
               Sed_unmodelled \<Rightarrow> None
             | Sed_error \<Rightarrow> Some (Inl cmd)
             | Sed_ok c' \<Rightarrow>
                (case fs file of
                   None \<Rightarrow> Some (Inl cmd)
                 | Some c \<Rightarrow> Some (Inr (fs(file @ ext \<mapsto> c, file \<mapsto> c'))))))"

section \<open>quick_replace and line_edit\<close>

text \<open>\<^verbatim>\<open>s.replace(/[...]/g, '\\$&')\<close>: a backslash before every character of the class.\<close>

definition escape_chars :: "string \<Rightarrow> string \<Rightarrow> string" where
  "escape_chars special s = concat (map (\<lambda>c. if c \<in> set special then [backslash, c] else [c]) s)"

text \<open>\<^verbatim>\<open>s.replace(/'/g, "'\\''")\<close>\<close>

definition escape_quotes :: "string \<Rightarrow> string" where
  "escape_quotes s = concat (map (\<lambda>c. if c = quote then [quote, backslash, quote, quote] else [c]) s)"

definition escapedFind :: "string \<Rightarrow> string" where
  "escapedFind findText = escape_quotes (escape_chars (''.*+?^${}()|[]'' @ [backslash]) findText)"

definition escapedReplace :: "string \<Rightarrow> string" where
  "escapedReplace replace = escape_quotes (escape_chars (''&/'' @ [backslash]) replace)"

definition quick_replace_pattern :: "string \<Rightarrow> string \<Rightarrow> bool \<Rightarrow> string" where
  "quick_replace_pattern findText replace all =
     (if all then ''s/'' @ escapedFind findText @ ''/'' @ escapedReplace replace @ ''/g''
      else ''s/'' @ escapedFind findText @ ''/'' @ escapedReplace replace @ ''/'')"

definition quick_replace :: "fs \<Rightarrow> string \<Rightarrow> string \<Rightarrow> string \<Rightarrow> bool \<Rightarrow> outcome option" where
  "quick_replace fs file findText replace all =
     (if \<not> existsSync fs file then Some (fs, Inl (Error (''File not found: '' @ file)))
      else (case sed_i fs ''.bak'' (quick_replace_pattern findText replace all) file of
              None \<Rightarrow> None
            | Some (Inl cmd) \<Rightarrow> Some (fs, Inl (CommandFailed cmd))
            | Some (Inr fs') \<Rightarrow>
               Some (fs', Inr (''Replaced '' @ [dquote] @ findText @ [dquote] @ '' with ''
                               @ [dquote] @ replace @ [dquote] @ '' in '' @ file))))"




section \<open>Previews: sed_edit and diff_preview\<close>

text \<open>
  Both previews run every command on \<open>file\<close> and on paths made of \<open>file\<close> and a
  suffix. perl opens a file name after taking white space from its ends and reading a
  leading \<^verbatim>\<open><\<close>, \<^verbatim>\<open>>\<close>, \<^verbatim>\<open>+\<close> or \<^verbatim>\<open>|\<close> and a trailing \<^verbatim>\<open>|\<close> as the way to open it, and awk reads
  an operand with \<^verbatim>\<open>=\<close> as an assignment. The previews have an outcome for a path that is
  \<open>shell_safe\<close> and free of these only.
\<close>

definition tool_path :: "string \<Rightarrow> bool" where
  "tool_path p =
     (shell_safe p \<and> CHR ''='' \<notin> set p
      \<and> (case p of [] \<Rightarrow> False | c # cs \<Rightarrow> c \<notin> set ('' <>+|'' @ [CHR 0x09, nl]))
      \<and> (case rev p of [] \<Rightarrow> False | c # cs \<Rightarrow> c \<notin> set ('' |'' @ [CHR 0x09, nl])))"

text \<open>\<^verbatim>\<open>rm -f .bak; cp 'file' 'tempFile'\<close>: the status is that of \<^verbatim>\<open>cp\<close>.\<close>

definition make_temp :: "fs \<Rightarrow> string \<Rightarrow> string \<Rightarrow> string + fs" where
  "make_temp fs file tempFile =
     (let fs1 = rm_f fs ''.bak''
      in case fs1 file of
           None \<Rightarrow> Inl (''rm -f .bak; cp '' @ [quote] @ file @ [quote] @ '' '' @ [quote] @ tempFile @ [quote])
         | Some c \<Rightarrow> Inr (fs1(tempFile \<mapsto> c)))"

definition sed_edit :: "tools \<Rightarrow> fs \<Rightarrow> string \<Rightarrow> string \<Rightarrow> bool \<Rightarrow> bool \<Rightarrow> outcome option" where
  "sed_edit t fs file pattern backup preview =
     (if \<not> existsSync fs file then Some (fs, Inl (Error (''File not found: '' @ file)))
      else if \<not> tool_path file then None
      else
        (case sh_read In_quote pattern of
           None \<Rightarrow> None
         | Some script \<Rightarrow>
            if preview then
              (let tempFile = file @ ''.preview.tmp'' in
               case make_temp fs file tempFile of
                 Inl cmd \<Rightarrow> Some (rm_f fs ''.bak'', Inl (CommandFailed cmd))
               | Inr fs2 \<Rightarrow>
                  (let r = perl t script (case fs2 tempFile of Some c \<Rightarrow> c | None \<Rightarrow> []);
                       fs3 = in_place fs2 tempFile None r;
                       stdout = (case r of
                                   Exit0 c e \<Rightarrow> head_lines 50 (run_diff t fs3 file tempFile)
                                 | ExitFail c e \<Rightarrow> []);
                       fs4 = rm_f fs3 tempFile
                   in if run_stderr r \<noteq> [] then Some (fs4, Inl (Error (''Sed error: '' @ run_stderr r)))
                      else Some (fs4, Inr (''Preview of changes:\<newline>''
                             @ (if stdout = [] then ''No changes would be made'' else stdout)))))
            else
              (let backupExt = (if backup then ''.bak'' else []);
                   sedCmd = ''perl -i'' @ backupExt @ '' -pe '' @ [quote] @ pattern @ [quote] @ '' ''
                            @ [quote] @ file @ [quote];
                   r = perl t script (case fs file of Some c \<Rightarrow> c | None \<Rightarrow> []);
                   fs1 = in_place fs file (if backup then Some ''.bak'' else None) r
               in case r of
                    ExitFail c e \<Rightarrow> Some (fs1, Inl (CommandFailed sedCmd))
                  | Exit0 c e \<Rightarrow>
                     if e \<noteq> [] then Some (fs1, Inl (Error (''Sed error: '' @ e)))
                     else Some (fs1, Inr (''Successfully edited '' @ file
                            @ (if backup then '' (backup created as .bak)'' else []))))))"

text \<open>
  The edit command of \<^verbatim>\<open>diff_preview\<close> on the scratch copy, by tool; a tool that is none of
  the three leaves \<^verbatim>\<open>editCmd\<close> undefined, and \<^verbatim>\<open>execAsync('')\<close> refuses the empty command
  and throws. \<open>Inl cmd\<close> is the rejection, with the file system it leaves behind.
\<close>

definition preview_edit :: "tools \<Rightarrow> fs \<Rightarrow> string \<Rightarrow> string \<Rightarrow> string \<Rightarrow> string \<Rightarrow> (fs \<times> (string + unit)) option" where
  "preview_edit t fs tool command script tempFile =
     (let c = (case fs tempFile of Some c \<Rightarrow> c | None \<Rightarrow> []) in
      if tool = ''perl'' then
        (let r = perl t script c;
             cmd = ''perl -i -pe '' @ [quote] @ command @ [quote] @ '' '' @ [quote] @ tempFile @ [quote]
         in Some (in_place fs tempFile None r,
                  (case r of Exit0 c' e \<Rightarrow> Inr () | ExitFail c' e \<Rightarrow> Inl cmd)))
      else if tool = ''sed'' then
        (case sed_i fs ''.tmp'' command tempFile of
           None \<Rightarrow> None
         | Some (Inl cmd) \<Rightarrow>
            Some (fs, Inl (cmd @ '' && rm -f '' @ [quote] @ tempFile @ ''.tmp'' @ [quote]))
         | Some (Inr fs') \<Rightarrow> Some (rm_f fs' (tempFile @ ''.tmp''), Inr ()))
      else if tool = ''awk'' then
        (case awk t script c of
           (ok, out) \<Rightarrow>
             if ok then Some ((fs(tempFile \<mapsto> out))(tempFile @ ''.new'' := None), Inr ())
             else Some (fs(tempFile @ ''.new'' \<mapsto> out),
                        Inl (''awk '' @ [quote] @ command @ [quote] @ '' '' @ [quote] @ tempFile @ [quote]
                             @ '' > '' @ [quote] @ tempFile @ ''.new'' @ [quote] @ '' && mv '' @ [quote]
                             @ tempFile @ ''.new'' @ [quote] @ '' '' @ [quote] @ tempFile @ [quote])))
      else Some (fs, Inl []))"

definition diff_preview :: "tools \<Rightarrow> fs \<Rightarrow> string \<Rightarrow> string \<Rightarrow> string \<Rightarrow> outcome option" where
  "diff_preview t fs file command tool =
     (if \<not> existsSync fs file then Some (fs, Inl (Error (''File not found: '' @ file)))
      else if \<not> tool_path file then None
      else
        (let tempFile = file @ ''.preview.tmp'' in
         case make_temp fs file tempFile of
           Inl cmd \<Rightarrow> Some (rm_f fs ''.bak'', Inl (CommandFailed cmd))
         | Inr fs2 \<Rightarrow>
            (case sh_read In_quote command of
               None \<Rightarrow> None
             | Some script \<Rightarrow>
                (case preview_edit t fs2 tool command script tempFile of
                   None \<Rightarrow> None
                 | Some (fs3, Inl cmd) \<Rightarrow> Some (fs3, Inl (CommandFailed cmd))
                 | Some (fs3, Inr u) \<Rightarrow>
                    (let stdout = run_diff t fs3 file tempFile;
                         fs4 = rm_f fs3 tempFile
                     in Some (fs4, Inr (if stdout \<noteq> [] then ''Preview of changes:\<newline>'' @ stdout
                                        else ''No changes would be made'')))))))"

section \<open>Concrete inputs\<close>

text \<open>
  The constructor of regular expressions restricted to patterns without metacharacters
  and to the flag \<^verbatim>\<open>g\<close> alone, for which matching is substring search.
\<close>

definition literal_RegExp :: regexp_ctor where
  "literal_RegExp pattern flags = (if flags = ''g'' then Some (literal_regex pattern) else None)"

text \<open>
  Tools for the previews below: a perl that rejects the script \<^verbatim>\<open>s/a/\<close> before it touches
  its file (as perl does: "Substitution replacement not terminated") and leaves the text
  of every other script as it is, an awk that prints its input, and a diff that prints
  a header for two texts that differ.
\<close>

definition sample_tools :: tools where
  "sample_tools =
     \<lparr> perl = (\<lambda>script content.
                 if script = ''s/a/''
                 then ExitFail None ''Substitution replacement not terminated at -e line 1.''
                 else Exit0 content []),
       awk = (\<lambda>script content. (True, content)),
       diff_u = (\<lambda>a x b y. if x = y then [] else ''--- '' @ a @ ''\<newline>+++ '' @ b @ ''\<newline>'') \<rparr>"

text \<open>What a handler that runs commands leaves at a path, and what it returns.\<close>

definition file_after :: "outcome option \<Rightarrow> string \<Rightarrow> string option" where
  "file_after r p = (case r of None \<Rightarrow> None | Some (fs, x) \<Rightarrow> fs p)"

definition payload :: "outcome option \<Rightarrow> (error + string) option" where
  "payload r = map_option snd r"

section \<open>Notions of the specification\<close>

text \<open>
  The context window in the words of the specification: for the 1-based centre line
  \<open>i\<close> and the radius \<open>c\<close>, the lines numbered from \<open>max 1 (i - c)\<close> to
  \<open>min N (i + c)\<close>, each behind its number padded to four characters, the centre line
  marked with \<^verbatim>\<open>>\<close>.
\<close>

definition spec_window :: "string list \<Rightarrow> int \<Rightarrow> int \<Rightarrow> string list" where
  "spec_window fileLines i c =
     map (\<lambda>k. (if k = i then ''>'' else '' '') @ '' '' @ padStart 4 (string_of_int k) @ '': ''
               @ fileLines ! nat (k - 1))
       [max 1 (i - c) .. min (int (length fileLines)) (i + c)]"

text \<open>
  The 0-based indices of the lines at which the test of the search loop answers yes,
  when the loop reaches the lines \<open>ls\<close> at index \<open>index\<close> with \<open>li\<close> in \<^verbatim>\<open>lastIndex\<close>.
\<close>

fun hit_lines :: "regex \<Rightarrow> nat \<Rightarrow> nat \<Rightarrow> string list \<Rightarrow> nat list" where
  "hit_lines re li index [] = []"
| "hit_lines re li index (l # ls) =
     (if fst (regex_test re li l) then [index] else [])
       @ hit_lines re (snd (regex_test re li l)) (Suc index) ls"


section \<open>Backups: restoring\<close>

lemma restore_backup_found:
  assumes "fs (file @ ''.bak'') = Some backupContent"
    and "keepBackup \<or> shell_safe (file @ ''.bak'')" and "file \<noteq> []"
  shows "restore_backup fs file keepBackup =
     Some ((if keepBackup then id else (\<lambda>m. m(file @ ''.bak'' := None)))
        ((case fs file of
            Some current \<Rightarrow> fs(file @ ''.before-restore'' \<mapsto> current)
          | None \<Rightarrow> fs)(file \<mapsto> backupContent)),
      Inr (''Successfully restored '' @ file @ '' from backup''
           @ (if \<not> keepBackup then '' (backup removed)'' else [])
           @ ''\<newline>Safety backup created: '' @ file @ ''.before-restore''))"
  using assms
  unfolding restore_backup_def Let_def existsSync_def readFile_def writeFile_def rm_f_def sh_rm_f_def
  by (auto split: option.splits)

text \<open>
  C2. When \<open>file @ ''.bak''\<close> does not exist, \<^verbatim>\<open>restore_backup\<close> fails with the no-backup
  error, whose message lists the alternates (\<open>~\<close>, \<open>.backup\<close>, \<open>.orig\<close>) that exist, and
  returns the file system it was given: nothing is restored from an alternate, and the
  target and the alternates are as they were, however often the call is repeated.
\<close>

theorem restore_backup_no_backup:
  assumes "fs (file @ ''.bak'') = None"
  shows "restore_backup fs file keepBackup =
           Some (fs, Inl (Error
             (if filter (existsSync fs) [file @ ''~'', file @ ''.backup'', file @ ''.orig''] = []
              then ''No backup file found for '' @ file
              else ''No .bak file found, but found: ''
                   @ join '', '' (filter (existsSync fs) [file @ ''~'', file @ ''.backup'', file @ ''.orig'']))))
         \<and> restore_repeated n fs file keepBackup = Some fs"
proof -
  have one: "restore_backup fs file keepBackup =
           Some (fs, Inl (Error
             (if filter (existsSync fs) [file @ ''~'', file @ ''.backup'', file @ ''.orig''] = []
              then ''No backup file found for '' @ file
              else ''No .bak file found, but found: ''
                   @ join '', '' (filter (existsSync fs) [file @ ''~'', file @ ''.backup'', file @ ''.orig'']))))"
    using assms unfolding restore_backup_def Let_def existsSync_def by simp
  have "restore_repeated n fs file keepBackup = Some fs"
    by (induction n) (simp_all add: one)
  with one show ?thesis by simp
qed

theorem restore_backup_no_backup_witness:
  "map_of [(''f'', ''current''), (''f.orig'', ''older'')] (''f'' @ ''.bak'') = None
   \<and> restore_backup (map_of [(''f'', ''current''), (''f.orig'', ''older'')]) ''f'' True =
       Some (map_of [(''f'', ''current''), (''f.orig'', ''older'')],
             Inl (Error ''No .bak file found, but found: f.orig''))
   \<and> restore_repeated 3 (map_of [(''f'', ''current''), (''f.orig'', ''older'')]) ''f'' True =
       Some (map_of [(''f'', ''current''), (''f.orig'', ''older'')])"
  using restore_backup_no_backup [of "map_of [(''f'', ''current''), (''f.orig'', ''older'')]" "''f''" True 3]
  by (simp add: existsSync_def)

text \<open>
  C9, as the code has it. A restore from an existing backup writes the content that the
  target had before the call to \<open>file @ ''.before-restore''\<close> when the target exists, so
  that this file then holds exactly the pre-restore content; when the target does not
  exist no snapshot is written and \<open>file @ ''.before-restore''\<close> is left as it was. In
  both cases the target ends up with the backup's content and the call succeeds. This is
  stated for a target path that is not empty, for the calls that keep the backup, which
  run no command, and for those that remove it with \<^verbatim>\<open>rm -f\<close> when the path of the backup
  is one that the shell and \<^verbatim>\<open>rm\<close> read as that path.
\<close>

theorem restore_backup_snapshot:
  assumes "fs (file @ ''.bak'') = Some backupContent"
    and "keepBackup \<or> shell_safe (file @ ''.bak'')" and "file \<noteq> []"
  shows "file_after (restore_backup fs file keepBackup) (file @ ''.before-restore'') =
           (case fs file of Some current \<Rightarrow> Some current | None \<Rightarrow> fs (file @ ''.before-restore''))
         \<and> file_after (restore_backup fs file keepBackup) file = Some backupContent
         \<and> payload (restore_backup fs file keepBackup) =
             Some (Inr (''Successfully restored '' @ file @ '' from backup''
                        @ (if \<not> keepBackup then '' (backup removed)'' else [])
                        @ ''\<newline>Safety backup created: '' @ file @ ''.before-restore''))"
  using restore_backup_found [of fs "file" backupContent keepBackup] assms
  by (auto simp: file_after_def payload_def split: option.splits)

theorem restore_backup_snapshot_witness:
  "map_of [(''f'', ''current''), (''f.bak'', ''good'')] (''f'' @ ''.bak'') = Some ''good''
   \<and> shell_safe (''f'' @ ''.bak'') \<and> ''f'' \<noteq> []
   \<and> file_after (restore_backup (map_of [(''f'', ''current''), (''f.bak'', ''good'')]) ''f'' False)
        ''f.before-restore'' = Some ''current''
   \<and> file_after (restore_backup (map_of [(''f'', ''current''), (''f.bak'', ''good'')]) ''f'' False) ''f''
       = Some ''good''"
proof -
  have h: "map_of [(''f'', ''current''), (''f.bak'', ''good'')] (''f'' @ ''.bak'') = Some ''good''"
    by simp
  have s: "shell_safe (''f'' @ ''.bak'')"
    by (simp add: shell_safe_def)
  then have k: "False \<or> shell_safe (''f'' @ ''.bak'')"
    by simp
  have ne: "''f'' \<noteq> []"
    by simp
  note w = restore_backup_snapshot [of "map_of [(''f'', ''current''), (''f.bak'', ''good'')]" "''f''"
      "''good''" False, OF h k ne]
  have a: "file_after (restore_backup (map_of [(''f'', ''current''), (''f.bak'', ''good'')]) ''f'' False)
        ''f.before-restore'' = Some ''current''"
    using w by simp
  have b: "file_after (restore_backup (map_of [(''f'', ''current''), (''f.bak'', ''good'')]) ''f'' False) ''f''
       = Some ''good''"
    using w by blast
  show ?thesis
    using h s ne a b by blast
qed

text \<open>
  C9 as the specification states it fails when the target is absent: the restore
  succeeds and reports a safety backup, but \<open>f.before-restore\<close> still holds what an
  earlier restore left there.
\<close>

theorem restore_backup_snapshot_counterexample:
  "map_of [(''f.bak'', ''good''), (''f.before-restore'', ''stale'')] ''f'' = None
   \<and> payload (restore_backup (map_of [(''f.bak'', ''good''), (''f.before-restore'', ''stale'')]) ''f'' True)
       = Some (Inr ''Successfully restored f from backup\<newline>Safety backup created: f.before-restore'')
   \<and> file_after (restore_backup (map_of [(''f.bak'', ''good''), (''f.before-restore'', ''stale'')]) ''f'' True)
         ''f'' = Some ''good''
   \<and> file_after (restore_backup (map_of [(''f.bak'', ''good''), (''f.before-restore'', ''stale'')]) ''f'' True)
         ''f.before-restore'' = Some ''stale''"
  by code_simp

section \<open>Reading a whole file\<close>

lemma map_enumerate_take:
  "map (\<lambda>(i, x). f i x) (enumerate 0 (take n xs)) = map (\<lambda>i. f i (xs ! i)) [0..<min n (length xs)]"
  by (rule nth_equalityI) (simp_all add: nth_enumerate_eq)

lemma take_if_longer: "(if length xs > n then take n xs else xs) = take n xs"
  by simp

lemma string_of_nat_100: "string_of_nat 100 = ''100''"
  by (simp add: string_of_nat.simps digit_char_def)

text \<open>
  C10. With neither a line range nor a search pattern, \<^verbatim>\<open>read_file\<close> on an existing file
  returns the lines with the 0-based indices below \<open>min 100 N\<close>, each behind its 1-based
  number, and after them, exactly when the file has more than 100 lines, the notice
  that the first 100 of \<open>N\<close> lines are shown.
\<close>

theorem read_file_full:
  assumes "fs file = Some content"
  shows "read_file mk fs file None None context =
           Inr (''Contents of '' @ file @ '':\<newline>''
                @ join ''\<newline>''
                    (map (\<lambda>i. padStart 4 (string_of_nat (i + 1)) @ '': '' @ split_str nl content ! i)
                       [0..<min 100 (length (split_str nl content))])
                @ (if length (split_str nl content) > 100
                   then ''\<newline>... (showing first 100 of ''
                        @ string_of_nat (length (split_str nl content)) @ '' lines)''
                   else []))"
proof -
  have "read_file mk fs file None None context = Inr (read_full file (split_str nl content))"
    using assms by (simp add: read_file_def existsSync_def readFile_def truthy_string_def truthy_lines_def)
  then show ?thesis
    unfolding read_full_def Let_def take_if_longer map_enumerate_take maxLines_def
    by (simp add: string_of_nat_100)
qed

theorem read_file_full_witness:
  "map_of [(''f'', ''a\<newline>b'')] ''f'' = Some ''a\<newline>b''
   \<and> read_file literal_RegExp (map_of [(''f'', ''a\<newline>b'')]) ''f'' None None 3
       = Inr ''Contents of f:\<newline>   1: a\<newline>   2: b''"
proof -
  have h: "map_of [(''f'', ''a\<newline>b'')] ''f'' = Some ''a\<newline>b''"
    by simp
  have "read_file literal_RegExp (map_of [(''f'', ''a\<newline>b'')]) ''f'' None None 3 =
           Inr (''Contents of '' @ ''f'' @ '':\<newline>''
                @ join ''\<newline>''
                    (map (\<lambda>i. padStart 4 (string_of_nat (i + 1)) @ '': '' @ split_str nl ''a\<newline>b'' ! i)
                       [0..<min 100 (length (split_str nl ''a\<newline>b''))])
                @ (if length (split_str nl ''a\<newline>b'') > 100
                   then ''\<newline>... (showing first 100 of ''
                        @ string_of_nat (length (split_str nl ''a\<newline>b'')) @ '' lines)''
                   else []))"
    using read_file_full [of "map_of [(''f'', ''a\<newline>b'')]" "''f''" "''a\<newline>b''" literal_RegExp 3] h
    by blast
  also have "\<dots> = Inr ''Contents of f:\<newline>   1: a\<newline>   2: b''"
    by code_simp
  finally show ?thesis
    using h by blast
qed

section \<open>Printing and reading numbers\<close>

lemma index_of_nth: "distinct xs \<Longrightarrow> d < length xs \<Longrightarrow> index_of (xs ! d) xs = Some d"
proof (induction xs arbitrary: d)
  case Nil
  then show ?case by simp
next
  case (Cons x xs)
  show ?case
  proof (cases d)
    case 0
    then show ?thesis by simp
  next
    case (Suc e)
    with Cons.prems have "xs ! e \<noteq> x" "e < length xs" "distinct xs"
      by auto
    with Suc Cons.IH [of e] show ?thesis by simp
  qed
qed

lemma digits_length: "length ''0123456789'' = 10"
  by simp

lemma is_digit_digit_char: "d < 10 \<Longrightarrow> is_digit (digit_char d)"
  unfolding is_digit_def digit_char_def
  by (rule nth_mem) (simp only: digits_length)

lemma is_digit_nth: "is_digit c \<Longrightarrow> \<exists>d<10. c = digit_char d"
  unfolding is_digit_def digit_char_def in_set_conv_nth digits_length
  by blast

lemma digit_val_digit_char: "d < 10 \<Longrightarrow> digit_val 10 (digit_char d) = Some d"
proof -
  assume d: "d < 10"
  have dist: "distinct ''0123456789abcdef''"
    by simp
  have "''0123456789abcdef'' ! d = ''0123456789'' ! d"
    using d nth_append [of "''0123456789''" "''abcdef''" d] by simp
  then have "index_of (digit_char d) ''0123456789abcdef'' = Some d"
    using index_of_nth [OF dist, of d] d by (simp add: digit_char_def)
  with d show ?thesis
    by (simp add: digit_val_def)
qed

lemma digit_val_is_digit: "is_digit c \<Longrightarrow> digit_val 10 c \<noteq> None"
  using is_digit_nth [of c] digit_val_digit_char by auto

lemma not_digits:
  "\<not> is_digit CHR ''-''" "\<not> is_digit CHR ''+''" "\<not> is_digit CHR ''x''" "\<not> is_digit CHR ''X''"
  "\<not> is_digit CHR ''$''" "\<not> is_digit CHR '',''" "\<not> is_digit quote" "\<not> is_digit CHR ''d''"
  "\<not> is_digit CHR '' ''" "\<not> is_digit CHR 0x09" "\<not> is_digit CHR 0x0A" "\<not> is_digit CHR 0x0B"
  "\<not> is_digit CHR 0x0C" "\<not> is_digit CHR 0x0D"
  by (simp_all add: is_digit_def)

lemma is_digit_not_ws: "is_digit c \<Longrightarrow> \<not> is_ws c"
  using not_digits by (auto simp: is_ws_def)

lemma is_digit_not_special:
  "is_digit c \<Longrightarrow> \<not> is_ws c \<and> c \<noteq> CHR ''-'' \<and> c \<noteq> CHR ''+'' \<and> c \<noteq> CHR ''x'' \<and> c \<noteq> CHR ''X''
     \<and> c \<noteq> CHR ''$'' \<and> c \<noteq> CHR '','' \<and> c \<noteq> quote \<and> c \<noteq> CHR ''d''"
  using not_digits is_digit_not_ws by blast

lemma string_of_nat_digits: "c \<in> set (string_of_nat n) \<Longrightarrow> is_digit c"
proof (induction n arbitrary: c rule: string_of_nat.induct)
  case (1 n)
  show ?case
  proof (cases "n < 10")
    case True
    with "1.prems" show ?thesis
      by (simp add: string_of_nat.simps [of n] is_digit_digit_char)
  next
    case False
    with "1.prems" have "c \<in> set (string_of_nat (n div 10)) \<or> c = digit_char (n mod 10)"
      by (auto simp: string_of_nat.simps [of n])
    with False "1.IH" show ?thesis
      by (auto simp: is_digit_digit_char)
  qed
qed

lemma string_of_nat_nonempty: "string_of_nat n \<noteq> []"
  by (simp add: string_of_nat.simps [of n])

lemma digits_value_snoc:
  "digits_value r (ds @ [c]) = digits_value r ds * r + (case digit_val r c of Some v \<Rightarrow> v | None \<Rightarrow> 0)"
  by (simp add: digits_value_def)

lemma digits_value_string_of_nat: "digits_value 10 (string_of_nat n) = n"
proof (induction n rule: string_of_nat.induct)
  case (1 n)
  show ?case
  proof (cases "n < 10")
    case True
    then show ?thesis
      by (simp add: string_of_nat.simps [of n] digits_value_def digit_val_digit_char)
  next
    case False
    with "1.IH" show ?thesis
      by (simp add: string_of_nat.simps [of n] digits_value_snoc digit_val_digit_char)
  qed
qed


lemma parseInt_digits:
  assumes "s \<noteq> []" and "\<forall>c\<in>set s. is_digit c"
  shows "parseInt s = Some (int (digits_value 10 s))"
proof -
  from assms obtain c cs where s: "s = c # cs" and c: "is_digit c"
    by (cases s) auto
  have ws: "dropWhile is_ws s = s"
    using s c is_digit_not_special by simp
  have sign: "c \<noteq> CHR ''-'' \<and> c \<noteq> CHR ''+''"
    using c is_digit_not_special by blast
  have neg: "(case s of c # x \<Rightarrow> c = CHR ''-'' | [] \<Rightarrow> False) = False"
    using s sign by simp
  have s2: "(case s of c # r \<Rightarrow> if c = CHR ''-'' \<or> c = CHR ''+'' then r else s | [] \<Rightarrow> s) = s"
    using s sign by simp
  have nohex: "(take 2 s = ''0x'' \<or> take 2 s = ''0X'') = False"
  proof (cases cs)
    case Nil
    with s show ?thesis by simp
  next
    case (Cons d ds)
    with assms(2) s have "is_digit d" by simp
    then have "d \<noteq> CHR ''x'' \<and> d \<noteq> CHR ''X''"
      using is_digit_not_special by blast
    with s Cons show ?thesis by simp
  qed
  have all: "takeWhile (\<lambda>c. digit_val 10 c \<noteq> None) s = s"
    using assms(2) digit_val_is_digit by (simp add: takeWhile_eq_all_conv)
  show ?thesis
    unfolding parseInt_def ws Let_def neg s2 nohex if_False drop_0 all
    using assms(1) by simp
qed

lemma parseInt_string_of_nat: "parseInt (string_of_nat n) = Some (int n)"
  using parseInt_digits [of "string_of_nat n"] string_of_nat_digits string_of_nat_nonempty
  by (simp add: digits_value_string_of_nat)

lemma split_str_absent: "d \<notin> set s \<Longrightarrow> split_str d s = [s]"
  by (induction s) auto

lemma split_str_first: "d \<notin> set s \<Longrightarrow> split_str d (s @ d # r) = s # split_str d r"
  by (induction s) auto

lemma string_of_nat_no_dash: "CHR ''-'' \<notin> set (string_of_nat n)"
  using string_of_nat_digits is_digit_not_special by blast

lemma range_strings_printed:
  "range_strings (LinesString (string_of_nat a @ ''-'' @ string_of_nat b))
     = (Some (string_of_nat a), Some (string_of_nat b))"
  by (simp add: range_strings_def nth_opt_def split_str_first split_str_absent string_of_nat_no_dash)

lemma string_of_nat_not_dollar: "string_of_nat n \<noteq> ''$''"
proof
  assume "string_of_nat n = ''$''"
  then have "CHR ''$'' \<in> set (string_of_nat n)" by simp
  then show False using string_of_nat_digits is_digit_not_special by blast
qed

lemma string_of_int_nat: "string_of_int (int n) = string_of_nat n"
  by (simp add: string_of_int_def)

lemma slice_from_to:
  assumes "1 \<le> a"
  shows "slice xs (Some (int a - 1)) (Some (int b)) = take (min b (length xs) - (a - 1)) (drop (a - 1) xs)"
proof (cases "a - 1 \<le> length xs")
  case True
  with assms have "rel_index (length xs) (Some (int a - 1)) = a - 1"
    by (simp add: rel_index_def nat_diff_distrib)
  then show ?thesis
    by (simp add: slice_def rel_index_def Let_def)
next
  case False
  with assms have "rel_index (length xs) (Some (int a - 1)) = length xs"
    by (simp add: rel_index_def nat_diff_distrib)
  with False show ?thesis
    by (simp add: slice_def Let_def)
qed

lemma numbered_slice:
  assumes "1 \<le> a"
  shows "map (\<lambda>(index, line). f (a + index) line)
             (enumerate 0 (slice xs (Some (int a - 1)) (Some (int b))))
         = map (\<lambda>k. f k (xs ! (k - 1))) [a..<Suc (min b (length xs))]"
  unfolding slice_from_to [OF assms]
proof (rule nth_equalityI)
  show "length (map (\<lambda>(index, line). f (a + index) line)
             (enumerate 0 (take (min b (length xs) - (a - 1)) (drop (a - 1) xs))))
      = length (map (\<lambda>k. f k (xs ! (k - 1))) [a..<Suc (min b (length xs))])"
    using assms by (simp del: upt_Suc)
next
  fix i
  assume "i < length (map (\<lambda>(index, line). f (a + index) line)
             (enumerate 0 (take (min b (length xs) - (a - 1)) (drop (a - 1) xs))))"
  then have i: "i < min b (length xs) - (a - 1)" "i < length xs - (a - 1)"
    by simp_all
  then have r: "a + i < Suc (min b (length xs))"
    using assms by arith
  have e: "a + i - 1 = a - 1 + i"
    using assms by arith
  have l: "i < length [a..<Suc (min b (length xs))]"
    using r by (simp del: upt_Suc)
  have u: "[a..<Suc (min b (length xs))] ! i = a + i"
    using r by (rule nth_upt)
  show "map (\<lambda>(index, line). f (a + index) line)
             (enumerate 0 (take (min b (length xs) - (a - 1)) (drop (a - 1) xs))) ! i
      = map (\<lambda>k. f k (xs ! (k - 1))) [a..<Suc (min b (length xs))] ! i"
    unfolding nth_map [OF l] u
    using i e by (simp add: nth_enumerate_eq del: upt_Suc)
qed

lemma read_lines_printed:
  assumes "1 \<le> a"
  shows "read_lines file fileLines (LinesString (string_of_nat a @ ''-'' @ string_of_nat b)) =
     ''Lines '' @ string_of_nat a @ ''-''
       @ (if b = length fileLines then ''$'' else string_of_nat b)
       @ '' of '' @ file @ '':\<newline>''
       @ join ''\<newline>''
           (map (\<lambda>k. padStart 4 (string_of_nat k) @ '': '' @ fileLines ! (k - 1))
              [a..<Suc (min b (length fileLines))])"
proof -
  have n: "\<And>index. number_toString (number_add (Some (int a)) (int index)) = string_of_nat (a + index)"
    by (simp add: number_toString_def number_add_def string_of_int_nat [symmetric])
  have st: "parseInt_arg (Some (string_of_nat a)) = Some (int a)"
    and en: "parseInt_arg (Some (string_of_nat b)) = Some (int b)"
    by (simp_all add: parseInt_arg_def parseInt_string_of_nat)
  have nd: "(Some (string_of_nat b) = Some ''$'') = False"
    by (simp add: string_of_nat_not_dollar)
  have m1: "number_add (Some (int a)) (- 1) = Some (int a - 1)"
    by (simp add: number_add_def)
  have body: "map (\<lambda>(index, line). padStart 4 (number_toString (number_add (Some (int a)) (int index))) @ '': '' @ line)
               (enumerate 0 (slice fileLines (Some (int a - 1)) (Some (int b))))
            = map (\<lambda>k. padStart 4 (string_of_nat k) @ '': '' @ fileLines ! (k - 1))
               [a..<Suc (min b (length fileLines))]"
    unfolding n
    by (rule numbered_slice [OF assms, of "\<lambda>k line. padStart 4 (string_of_nat k) @ '': '' @ line" fileLines b])
  show ?thesis
    unfolding read_lines_def range_strings_printed prod.case Let_def st en nd if_False m1 body
    by (simp add: number_toString_def string_of_int_nat del: upt_Suc)
qed

section \<open>Explicit addresses\<close>

text \<open>
  C5, as the code has it, for line numbers that are safe integers. \<^verbatim>\<open>show_around_line\<close>
  fails with the out-of-range error, and returns no excerpt, whenever the line number
  is below 1 or beyond the last line. \<^verbatim>\<open>read_file\<close> with a range \<open>a-b\<close>, \<open>1 \<le> a\<close>, checks
  no bound and does not fail: it returns the lines numbered from \<open>a\<close> to \<open>min b N\<close>,
  which are all lines of the range when it lies within the file, fewer when it reaches
  beyond the end and none when it starts there.
\<close>

theorem explicit_address_bounds:
  assumes "fs file = Some content"
  shows "(safe_integer n \<and> (n < 1 \<or> n > int (length (split_str nl content))) \<longrightarrow>
            show_around_line fs file (NumberArg n) context =
              Inl (Error (''Line number '' @ string_of_int n @ '' is out of range (file has ''
                          @ string_of_nat (length (split_str nl content)) @ '' lines)'')))
         \<and> (1 \<le> a \<and> safe_integer (int a) \<and> safe_integer (int b) \<longrightarrow>
            read_file mk fs file (Some (LinesString (string_of_nat a @ ''-'' @ string_of_nat b))) None context =
              Inr (''Lines '' @ string_of_nat a @ ''-''
                   @ (if b = length (split_str nl content) then ''$'' else string_of_nat b)
                   @ '' of '' @ file @ '':\<newline>''
                   @ join ''\<newline>''
                       (map (\<lambda>k. padStart 4 (string_of_nat k) @ '': '' @ split_str nl content ! (k - 1))
                          [a..<Suc (min b (length (split_str nl content)))])))"
proof (intro conjI impI)
  assume "safe_integer n \<and> (n < 1 \<or> n > int (length (split_str nl content)))"
  then have "n < 1 \<or> n > int (length (split_str nl content))"
    by simp
  then show "show_around_line fs file (NumberArg n) context =
              Inl (Error (''Line number '' @ string_of_int n @ '' is out of range (file has ''
                          @ string_of_nat (length (split_str nl content)) @ '' lines)''))"
    using assms
    by (simp add: show_around_line_def existsSync_def readFile_def out_of_range_def number_toString_def)
next
  assume "1 \<le> a \<and> safe_integer (int a) \<and> safe_integer (int b)"
  then have a: "1 \<le> a"
    by simp
  have t: "truthy_lines (Some (LinesString (string_of_nat a @ ''-'' @ string_of_nat b)))"
    by (simp add: truthy_lines_def)
  have "read_file mk fs file (Some (LinesString (string_of_nat a @ ''-'' @ string_of_nat b))) None context
      = Inr (read_lines file (split_str nl content) (LinesString (string_of_nat a @ ''-'' @ string_of_nat b)))"
    using assms t by (simp add: read_file_def existsSync_def readFile_def truthy_string_def)
  then show "read_file mk fs file (Some (LinesString (string_of_nat a @ ''-'' @ string_of_nat b))) None context =
              Inr (''Lines '' @ string_of_nat a @ ''-''
                   @ (if b = length (split_str nl content) then ''$'' else string_of_nat b)
                   @ '' of '' @ file @ '':\<newline>''
                   @ join ''\<newline>''
                       (map (\<lambda>k. padStart 4 (string_of_nat k) @ '': '' @ split_str nl content ! (k - 1))
                          [a..<Suc (min b (length (split_str nl content)))]))"
    unfolding read_lines_printed [OF a] by simp
qed

theorem explicit_address_bounds_witness:
  "map_of [(''f'', ''a\<newline>b\<newline>c'')] ''f'' = Some ''a\<newline>b\<newline>c''
   \<and> safe_integer 5 \<and> safe_integer (int 2) \<and> safe_integer (int 3)
   \<and> show_around_line (map_of [(''f'', ''a\<newline>b\<newline>c'')]) ''f'' (NumberArg 5) 2
       = Inl (Error ''Line number 5 is out of range (file has 3 lines)'')
   \<and> read_file literal_RegExp (map_of [(''f'', ''a\<newline>b\<newline>c'')]) ''f''
        (Some (LinesString (string_of_nat 2 @ ''-'' @ string_of_nat 3))) None 2
       = Inr ''Lines 2-$ of f:\<newline>   2: b\<newline>   3: c''"
proof -
  have h: "map_of [(''f'', ''a\<newline>b\<newline>c'')] ''f'' = Some ''a\<newline>b\<newline>c''"
    by simp
  have si: "safe_integer 5" "safe_integer (int 2)" "safe_integer (int 3)"
    by (simp_all add: safe_integer_def)
  have o: "safe_integer 5 \<and> ((5::int) < 1 \<or> 5 > int (length (split_str nl ''a\<newline>b\<newline>c'')))"
    using si by simp
  have p: "(1::nat) \<le> 2 \<and> safe_integer (int 2) \<and> safe_integer (int 3)"
    using si by simp
  note w = explicit_address_bounds [of "map_of [(''f'', ''a\<newline>b\<newline>c'')]" "''f''" "''a\<newline>b\<newline>c''"
      5 2 2 3 literal_RegExp, OF h]
  have "show_around_line (map_of [(''f'', ''a\<newline>b\<newline>c'')]) ''f'' (NumberArg 5) 2 =
          Inl (Error (''Line number '' @ string_of_int 5 @ '' is out of range (file has ''
                      @ string_of_nat (length (split_str nl ''a\<newline>b\<newline>c'')) @ '' lines)''))"
    using w o by blast
  also have "\<dots> = Inl (Error ''Line number 5 is out of range (file has 3 lines)'')"
    by code_simp
  finally have s: "show_around_line (map_of [(''f'', ''a\<newline>b\<newline>c'')]) ''f'' (NumberArg 5) 2
       = Inl (Error ''Line number 5 is out of range (file has 3 lines)'')" .
  have "read_file literal_RegExp (map_of [(''f'', ''a\<newline>b\<newline>c'')]) ''f''
        (Some (LinesString (string_of_nat 2 @ ''-'' @ string_of_nat 3))) None 2 =
          Inr (''Lines '' @ string_of_nat 2 @ ''-''
               @ (if 3 = length (split_str nl ''a\<newline>b\<newline>c'') then ''$'' else string_of_nat 3)
               @ '' of '' @ ''f'' @ '':\<newline>''
               @ join ''\<newline>''
                   (map (\<lambda>k. padStart 4 (string_of_nat k) @ '': '' @ split_str nl ''a\<newline>b\<newline>c'' ! (k - 1))
                      [2..<Suc (min 3 (length (split_str nl ''a\<newline>b\<newline>c'')))]))"
    using w p by blast
  also have "\<dots> = Inr ''Lines 2-$ of f:\<newline>   2: b\<newline>   3: c''"
    by code_simp
  finally show ?thesis
    using h si s by blast
qed

text \<open>
  C5 as the specification states it fails for \<^verbatim>\<open>read_file\<close>: the range 2-10 of a file of three lines is
  answered with the lines 2 and 3, not with an error.
\<close>

theorem explicit_address_bounds_counterexample:
  "read_file literal_RegExp (map_of [(''f'', ''a\<newline>b\<newline>c'')]) ''f'' (Some (LinesString ''2-10'')) None 3
     = Inr ''Lines 2-10 of f:\<newline>   2: b\<newline>   3: c''"
  by code_simp

section \<open>Context windows\<close>

lemma upto_shift: "map (\<lambda>k. g (k - 1)) [a + 1 .. b + 1] = map g [a .. b]"
  by (rule nth_equalityI) simp_all

lemma context_block_spec: "context_block fileLines c (int i) = spec_window fileLines (int i + 1) c"
proof -
  have lo: "max 1 (int i + 1 - c) = max 0 (int i - c) + 1"
    by simp
  have hi: "min (int (length fileLines)) (int i + 1 + c) = min (int (length fileLines) - 1) (int i + c) + 1"
    by simp
  show ?thesis
    unfolding context_block_def spec_window_def Let_def lo hi
    using upto_shift [of "context_line fileLines (int i)" "max 0 (int i - c)"
        "min (int (length fileLines) - 1) (int i + c)", symmetric]
    by (simp add: context_line_def)
qed

lemma search_step_hit:
  "search_step re c fl st (k, l) =
     (if fst (regex_test re (lastIndex st) l)
      then \<lparr> lastIndex = snd (regex_test re (lastIndex st) l),
             matchCount = Suc (matchCount st),
             results = results st
               @ (''\<newline>--- Match '' @ string_of_nat (Suc (matchCount st)) @ '' at line ''
                    @ string_of_nat (Suc k) @ '' ---'')
                 # spec_window fl (int k + 1) c \<rparr>
      else st \<lparr> lastIndex := snd (regex_test re (lastIndex st) l) \<rparr>)"
  by (simp add: search_step_def context_block_spec split: prod.splits)

lemma search_fold:
  "results (foldl (search_step re c fl) st (enumerate k ls)) =
     results st
       @ concat (map (\<lambda>(j, i). (''\<newline>--- Match '' @ string_of_nat j @ '' at line ''
                                  @ string_of_nat (Suc i) @ '' ---'')
                               # spec_window fl (int i + 1) c)
                 (enumerate (Suc (matchCount st)) (hit_lines re (lastIndex st) k ls)))
   \<and> matchCount (foldl (search_step re c fl) st (enumerate k ls)) =
     matchCount st + length (hit_lines re (lastIndex st) k ls)"
proof (induction ls arbitrary: st k)
  case Nil
  show ?case by simp
next
  case (Cons l ls)
  show ?case
  proof (cases "fst (regex_test re (lastIndex st) l)")
    case True
    then show ?thesis
      using Cons.IH [of "search_step re c fl st (k, l)" "Suc k"]
      by (simp add: search_step_hit)
  next
    case False
    then show ?thesis
      using Cons.IH [of "search_step re c fl st (k, l)" "Suc k"]
      by (simp add: search_step_hit)
  qed
qed

lemma search_loop_hits:
  "results (search_loop re c fl) =
     concat (map (\<lambda>(j, i). (''\<newline>--- Match '' @ string_of_nat j @ '' at line ''
                                @ string_of_nat (Suc i) @ '' ---'')
                             # spec_window fl (int i + 1) c)
               (enumerate 1 (hit_lines re 0 0 fl)))"
  "matchCount (search_loop re c fl) = length (hit_lines re 0 0 fl)"
  unfolding search_loop_def
  using search_fold [of re c fl "\<lparr> lastIndex = 0, matchCount = 0, results = [] \<rparr>" 0 fl]
  by simp_all

lemma blocks_empty:
  "(concat (map (\<lambda>(j, i). h j i # w i) (enumerate n xs)) = []) = (xs = [])"
  by (cases xs) simp_all

lemma string_of_nat_length: "n < 10 ^ k \<Longrightarrow> 0 < k \<Longrightarrow> length (string_of_nat n) \<le> k"
proof (induction n arbitrary: k rule: string_of_nat.induct)
  case (1 n)
  show ?case
  proof (cases "n < 10")
    case True
    with "1.prems" show ?thesis
      by (simp add: string_of_nat.simps [of n])
  next
    case False
    from "1.prems" obtain j where k: "k = Suc j"
      by (cases k) auto
    with "1.prems" False have j: "0 < j"
      by (cases j) auto
    from "1.prems" k have "n div 10 < 10 ^ j"
      by (simp add: less_mult_imp_div_less mult.commute)
    with "1.IH" [OF False this j] False k show ?thesis
      by (simp add: string_of_nat.simps [of n])
  qed
qed

lemma padded_width: "0 \<le> k \<Longrightarrow> k < 10000 \<Longrightarrow> length (padStart 4 (string_of_int k)) = 4"
proof -
  assume k: "0 \<le> k" "k < 10000"
  then have "nat k < 10 ^ 4" by simp
  then have "length (string_of_nat (nat k)) \<le> 4"
    by (rule string_of_nat_length) simp
  with k show ?thesis
    by (simp add: padStart_def string_of_int_def)
qed

text \<open>
  C6. Every block that \<^verbatim>\<open>search_in_file\<close> and \<^verbatim>\<open>show_around_line\<close> render is the window of
  the specification around its centre line: the lines from \<open>max 1 (i - c)\<close> to
  \<open>min N (i + c)\<close>, numbered from 1 with the number padded to four characters (its
  width for every line number below 10000), the centre line marked. The output of a
  search is one such block per line at which the loop found a match, in the order of
  the lines, each behind its own header; blocks are concatenated, never merged.
\<close>

theorem context_windows:
  assumes "fs file = Some content"
    and "mk pattern (if caseInsensitive then ''gi'' else ''g'') = Some re"
  shows "search_in_file mk fs file pattern c caseInsensitive =
           Inr (if hit_lines re 0 0 (split_str nl content) = []
                then ''No matches found for '' @ [dquote] @ pattern @ [dquote] @ '' in '' @ file
                else ''Found '' @ string_of_nat (length (hit_lines re 0 0 (split_str nl content)))
                     @ '' matches for '' @ [dquote] @ pattern @ [dquote] @ '' in '' @ file @ '':\<newline>''
                     @ join ''\<newline>''
                         (concat (map (\<lambda>(j, i). (''\<newline>--- Match '' @ string_of_nat j @ '' at line ''
                                                    @ string_of_nat (Suc i) @ '' ---'')
                                                 # spec_window (split_str nl content) (int i + 1) c)
                                    (enumerate 1 (hit_lines re 0 0 (split_str nl content))))))
         \<and> (1 \<le> n \<and> n \<le> int (length (split_str nl content)) \<longrightarrow>
              show_around_line fs file (NumberArg n) c =
                Inr (''Context around line '' @ string_of_int n @ '' in '' @ file @ '':\<newline>''
                     @ join ''\<newline>'' (spec_window (split_str nl content) n c)))
         \<and> (0 \<le> k \<and> k < 10000 \<longrightarrow> length (padStart 4 (string_of_int k)) = 4)"
proof (intro conjI impI)
  have e: "(results (search_loop re c (split_str nl content)) = [])
             = (hit_lines re 0 0 (split_str nl content) = [])"
    unfolding search_loop_hits(1) by (rule blocks_empty)
  show "search_in_file mk fs file pattern c caseInsensitive =
           Inr (if hit_lines re 0 0 (split_str nl content) = []
                then ''No matches found for '' @ [dquote] @ pattern @ [dquote] @ '' in '' @ file
                else ''Found '' @ string_of_nat (length (hit_lines re 0 0 (split_str nl content)))
                     @ '' matches for '' @ [dquote] @ pattern @ [dquote] @ '' in '' @ file @ '':\<newline>''
                     @ join ''\<newline>''
                         (concat (map (\<lambda>(j, i). (''\<newline>--- Match '' @ string_of_nat j @ '' at line ''
                                                    @ string_of_nat (Suc i) @ '' ---'')
                                                 # spec_window (split_str nl content) (int i + 1) c)
                                    (enumerate 1 (hit_lines re 0 0 (split_str nl content))))))"
    using assms e
    by (simp add: search_in_file_def existsSync_def readFile_def Let_def search_loop_hits)
next
  have al: "around_line (split_str nl content) n =
      (\<lambda>k. (if k = n then ''>'' else '' '') @ '' '' @ padStart 4 (string_of_int k) @ '': ''
               @ split_str nl content ! nat (k - 1))"
    by (rule ext) (simp add: around_line_def)
  assume "1 \<le> n \<and> n \<le> int (length (split_str nl content))"
  then show "show_around_line fs file (NumberArg n) c =
                Inr (''Context around line '' @ string_of_int n @ '' in '' @ file @ '':\<newline>''
                     @ join ''\<newline>'' (spec_window (split_str nl content) n c))"
    using assms(1)
    by (simp add: show_around_line_def existsSync_def readFile_def out_of_range_def Let_def
        number_toString_def spec_window_def al)
next
  assume "0 \<le> k \<and> k < 10000"
  then show "length (padStart 4 (string_of_int k)) = 4"
    by (simp add: padded_width)
qed

text \<open>
  Two matches whose windows overlap: line 2 stands in both blocks.
\<close>

theorem context_windows_witness:
  "map_of [(''f'', ''a\<newline>b\<newline>a'')] ''f'' = Some ''a\<newline>b\<newline>a''
   \<and> literal_RegExp ''a'' (if False then ''gi'' else ''g'') = Some (literal_regex ''a'')
   \<and> search_in_file literal_RegExp (map_of [(''f'', ''a\<newline>b\<newline>a'')]) ''f'' ''a'' 1 False =
       Inr (''Found 2 matches for '' @ [dquote] @ ''a'' @ [dquote] @ '' in f:\<newline>''
            @ ''\<newline>--- Match 1 at line 1 ---\<newline>>    1: a\<newline>     2: b\<newline>''
            @ ''\<newline>--- Match 2 at line 3 ---\<newline>     2: b\<newline>>    3: a'')
   \<and> show_around_line (map_of [(''f'', ''a\<newline>b\<newline>a'')]) ''f'' (NumberArg 2) 1 =
       Inr ''Context around line 2 in f:\<newline>     1: a\<newline>>    2: b\<newline>     3: a''
   \<and> length (padStart 4 (string_of_int 42)) = 4"
proof -
  have h: "map_of [(''f'', ''a\<newline>b\<newline>a'')] ''f'' = Some ''a\<newline>b\<newline>a''"
    by simp
  have m: "literal_RegExp ''a'' (if False then ''gi'' else ''g'') = Some (literal_regex ''a'')"
    by (simp add: literal_RegExp_def)
  have r: "(1::int) \<le> 2 \<and> 2 \<le> int (length (split_str nl ''a\<newline>b\<newline>a''))"
    by simp
  have k: "(0::int) \<le> 42 \<and> (42::int) < 10000"
    by simp
  note w = context_windows [of "map_of [(''f'', ''a\<newline>b\<newline>a'')]" "''f''" "''a\<newline>b\<newline>a''"
      literal_RegExp "''a''" False "literal_regex ''a''" 1 2 42, OF h m]
  have "search_in_file literal_RegExp (map_of [(''f'', ''a\<newline>b\<newline>a'')]) ''f'' ''a'' 1 False =
           Inr (if hit_lines (literal_regex ''a'') 0 0 (split_str nl ''a\<newline>b\<newline>a'') = []
                then ''No matches found for '' @ [dquote] @ ''a'' @ [dquote] @ '' in '' @ ''f''
                else ''Found '' @ string_of_nat (length (hit_lines (literal_regex ''a'') 0 0 (split_str nl ''a\<newline>b\<newline>a'')))
                     @ '' matches for '' @ [dquote] @ ''a'' @ [dquote] @ '' in '' @ ''f'' @ '':\<newline>''
                     @ join ''\<newline>''
                         (concat (map (\<lambda>(j, i). (''\<newline>--- Match '' @ string_of_nat j @ '' at line ''
                                                    @ string_of_nat (Suc i) @ '' ---'')
                                                 # spec_window (split_str nl ''a\<newline>b\<newline>a'') (int i + 1) 1)
                                    (enumerate 1 (hit_lines (literal_regex ''a'') 0 0 (split_str nl ''a\<newline>b\<newline>a''))))))"
    using w by blast
  also have "\<dots> = Inr (''Found 2 matches for '' @ [dquote] @ ''a'' @ [dquote] @ '' in f:\<newline>''
            @ ''\<newline>--- Match 1 at line 1 ---\<newline>>    1: a\<newline>     2: b\<newline>''
            @ ''\<newline>--- Match 2 at line 3 ---\<newline>     2: b\<newline>>    3: a'')"
    by code_simp
  finally have s: "search_in_file literal_RegExp (map_of [(''f'', ''a\<newline>b\<newline>a'')]) ''f'' ''a'' 1 False =
       Inr (''Found 2 matches for '' @ [dquote] @ ''a'' @ [dquote] @ '' in f:\<newline>''
            @ ''\<newline>--- Match 1 at line 1 ---\<newline>>    1: a\<newline>     2: b\<newline>''
            @ ''\<newline>--- Match 2 at line 3 ---\<newline>     2: b\<newline>>    3: a'')" .
  have "show_around_line (map_of [(''f'', ''a\<newline>b\<newline>a'')]) ''f'' (NumberArg 2) 1 =
          Inr (''Context around line '' @ string_of_int 2 @ '' in '' @ ''f'' @ '':\<newline>''
               @ join ''\<newline>'' (spec_window (split_str nl ''a\<newline>b\<newline>a'') 2 1))"
    using w r by blast
  also have "\<dots> = Inr ''Context around line 2 in f:\<newline>     1: a\<newline>>    2: b\<newline>     3: a''"
    by code_simp
  finally have a: "show_around_line (map_of [(''f'', ''a\<newline>b\<newline>a'')]) ''f'' (NumberArg 2) 1 =
       Inr ''Context around line 2 in f:\<newline>     1: a\<newline>>    2: b\<newline>     3: a''" .
  have p: "length (padStart 4 (string_of_int 42)) = 4"
    using w k by blast
  show ?thesis
    using h m s a p by blast
qed

section \<open>Matches that the search loop passes over\<close>

text \<open>
  C7 at a file of two lines \<open>a\<close>, searched for \<open>a\<close>: both lines match the pattern,
  and the loop reports the first only. The expression carries the \<^verbatim>\<open>g\<close> flag, so the
  test on line 1 leaves \<^verbatim>\<open>lastIndex\<close> at 1, and the test on line 2 starts behind its only
  character.
\<close>

theorem search_in_file_skips_match:
  "search_in_file literal_RegExp (map_of [(''f'', ''a\<newline>a'')]) ''f'' ''a'' 0 False =
     Inr (''Found 1 matches for '' @ [dquote] @ ''a'' @ [dquote] @ '' in f:\<newline>''
          @ ''\<newline>--- Match 1 at line 1 ---\<newline>>    1: a'')
   \<and> split_str nl ''a\<newline>a'' = [''a'', ''a'']
   \<and> regex_test (literal_regex ''a'') 0 ''a'' = (True, 1)
   \<and> regex_test (literal_regex ''a'') 1 ''a'' = (False, 0)"
  by code_simp

section \<open>Previews\<close>

text \<open>
  C1 at a preview whose edit command fails. \<^verbatim>\<open>diff_preview\<close> removes the scratch copy in
  its last step only, which a rejected edit command never reaches: after the preview of
  the perl script \<^verbatim>\<open>s/a/\<close>, and after that of the sed script \<^verbatim>\<open>s/a/b\<close>, the copy
  \<open>f.preview.tmp\<close> is still there. The preview branch of \<^verbatim>\<open>sed_edit\<close> does remove it.
  Both begin with \<^verbatim>\<open>rm -f .bak\<close>, which deletes the file of that name: a preview on the
  file \<open>.bak\<close> destroys it, and a preview on \<open>f\<close> deletes \<open>.bak\<close> beside it.
\<close>

theorem diff_preview_leaves_scratch_copy:
  "payload (diff_preview sample_tools (map_of [(''f'', ''a\<newline>'')]) ''f'' ''s/a/'' ''perl'')
     = Some (Inl (CommandFailed (''perl -i -pe '' @ [quote] @ ''s/a/'' @ [quote] @ '' ''
                                 @ [quote] @ ''f.preview.tmp'' @ [quote])))
   \<and> file_after (diff_preview sample_tools (map_of [(''f'', ''a\<newline>'')]) ''f'' ''s/a/'' ''perl'')
       ''f.preview.tmp'' = Some ''a\<newline>''
   \<and> file_after (diff_preview sample_tools (map_of [(''f'', ''a\<newline>'')]) ''f'' ''s/a/b'' ''sed'')
       ''f.preview.tmp'' = Some ''a\<newline>''
   \<and> file_after (sed_edit sample_tools (map_of [(''f'', ''a\<newline>'')]) ''f'' ''s/a/'' True True)
       ''f.preview.tmp'' = None
   \<and> payload (diff_preview sample_tools (map_of [(''.bak'', ''a\<newline>'')]) ''.bak'' ''s/a/b/'' ''perl'')
     = Some (Inl (CommandFailed (''rm -f .bak; cp '' @ [quote] @ ''.bak'' @ [quote] @ '' ''
                                 @ [quote] @ ''.bak.preview.tmp'' @ [quote])))
   \<and> file_after (diff_preview sample_tools (map_of [(''.bak'', ''a\<newline>'')]) ''.bak'' ''s/a/b/'' ''perl'')
       ''.bak'' = None
   \<and> payload (diff_preview sample_tools (map_of [(''f'', ''a\<newline>''), (''.bak'', ''kept'')]) ''f'' ''s/a/b/'' ''sed'')
     = Some (Inr (''Preview of changes:\<newline>--- f\<newline>+++ f.preview.tmp\<newline>''))
   \<and> file_after (diff_preview sample_tools (map_of [(''f'', ''a\<newline>''), (''.bak'', ''kept'')]) ''f'' ''s/a/b/'' ''sed'')
       ''.bak'' = None"
  by code_simp

section \<open>quick_replace\<close>

text \<open>
  C3 at a file of two lines \<open>old\<close> with \<open>all = false\<close>: the command is
  \<^verbatim>\<open>sed -i.bak 's/old/new/' 'f'\<close>, which sed applies to every line, so both occurrences
  are replaced, not the first of the file alone.
\<close>

theorem quick_replace_first_on_every_line:
  "quick_replace_pattern ''old'' ''new'' False = ''s/old/new/''
   \<and> payload (quick_replace (map_of [(''f'', ''old\<newline>old\<newline>'')]) ''f'' ''old'' ''new'' False)
       = Some (Inr (''Replaced '' @ [dquote] @ ''old'' @ [dquote] @ '' with '' @ [dquote] @ ''new''
                    @ [dquote] @ '' in f''))
   \<and> file_after (quick_replace (map_of [(''f'', ''old\<newline>old\<newline>'')]) ''f'' ''old'' ''new'' False) ''f''
       = Some ''new\<newline>new\<newline>''"
  by code_simp

text \<open>
  C4 at the search text \<open>a/b\<close>: the delimiter of the \<^verbatim>\<open>s\<close> command is not among the
  characters that \<^verbatim>\<open>escapedFind\<close> protects, so the script is \<^verbatim>\<open>s/a/b/c/g\<close>, whose fields
  are the expression \<open>a\<close>, the replacement \<open>b\<close> and the flags \<open>c/g\<close>. sed rejects it,
  and the file, which contains \<open>a/b\<close>, keeps it.
\<close>

theorem quick_replace_delimiter_in_find:
  "escapedFind ''a/b'' = ''a/b''
   \<and> quick_replace_pattern ''a/b'' ''c'' True = ''s/a/b/c/g''
   \<and> sed_field ''a/b/c/g'' = Some (''a'', ''b/c/g'')
   \<and> sed_parse ''s/a/b/c/g'' = Parse_error
   \<and> payload (quick_replace (map_of [(''f'', ''a/b\<newline>'')]) ''f'' ''a/b'' ''c'' True)
       = Some (Inl (CommandFailed (''sed -i.bak '' @ [quote] @ ''s/a/b/c/g'' @ [quote] @ '' ''
                                   @ [quote] @ ''f'' @ [quote])))
   \<and> file_after (quick_replace (map_of [(''f'', ''a/b\<newline>'')]) ''f'' ''a/b'' ''c'' True) ''f''
       = Some ''a/b\<newline>''"
  by code_simp

section \<open>Deleting a range of lines\<close>

























end
